theory Spec2Isabelle
  imports Main
begin

section \<open>Python 2 values, strings and list indexing\<close>

text \<open>
  The module \<open>horus/util/profile.py\<close> is Python 2 code. Python 2 has two string types:
  \<open>str\<close>, a sequence of bytes, and \<open>unicode\<close>, a sequence of code points. A byte string
  is modelled as \<open>string\<close> (a list of 8-bit characters), a unicode string as the list of
  its code points. Setting names, categories and everything that goes through the compact
  string are byte strings; a setting's default and its stored values are unicode strings
  (\<open>unicode(default)\<close>, \<open>unicode(value)\<close>).
\<close>

type_synonym bytes = string
type_synonym ustring = "nat list"

datatype error =
    IndexError
  | ValueError
  | UnicodeDecodeError
  | NameError
  | IOError
  | NoSectionError
  | DuplicateSectionError
  | TransportError

type_synonym 'a outcome = "error + 'a"

text \<open>
  The values handed to \<open>setting(...)\<close> and \<open>setValue\<close>: byte strings, unicode strings,
  integers and floats. A float is represented by the text that \<open>str\<close> renders for it
  (\<open>0.45\<close> is \<open>PyFloat ''0.45''\<close>); floating-point arithmetic itself is not modelled.
\<close>

datatype pyval = PyStr bytes | PyUnicode ustring | PyInt int | PyFloat bytes

text \<open>Decimal rendering of integers, as \<open>'%d' % n\<close> and \<open>str(n)\<close> produce it.\<close>

definition digit_char :: "nat \<Rightarrow> char" where
  "digit_char d = ''0123456789'' ! (d mod 10)"

fun show_nat :: "nat \<Rightarrow> bytes" where
  "show_nat n = (if n < 10 then [digit_char n] else show_nat (n div 10) @ [digit_char (n mod 10)])"

declare show_nat.simps [simp del]

definition show_int :: "int \<Rightarrow> bytes" where
  "show_int i = (if i < 0 then CHR ''-'' # show_nat (nat (- i)) else show_nat (nat i))"

text \<open>
  \<open>unicode(b)\<close> for a byte string decodes with the default codec, ASCII, in strict mode:
  any byte of value 128 or more raises \<open>UnicodeDecodeError\<close>.
\<close>

definition ascii_decode :: "bytes \<Rightarrow> ustring outcome" where
  "ascii_decode b =
     (if list_all (\<lambda>c. (of_char c :: nat) < 128) b then Inr (map of_char b)
      else Inl UnicodeDecodeError)"

fun py_unicode :: "pyval \<Rightarrow> ustring outcome" where
  "py_unicode (PyUnicode u) = Inr u"
| "py_unicode (PyStr b) = ascii_decode b"
| "py_unicode (PyInt i) = Inr (map of_char (show_int i))"
| "py_unicode (PyFloat t) = ascii_decode t"

text \<open>\<open>u.encode('utf-8')\<close>: one to four bytes for each code point.\<close>

definition utf8_code_point :: "nat \<Rightarrow> bytes" where
  "utf8_code_point c =
     (if c < 128 then [char_of c]
      else if c < 2048 then [char_of (192 + c div 64), char_of (128 + c mod 64)]
      else if c < 65536 then
        [char_of (224 + c div 4096), char_of (128 + (c div 64) mod 64), char_of (128 + c mod 64)]
      else
        [char_of (240 + c div 262144), char_of (128 + (c div 4096) mod 64),
         char_of (128 + (c div 64) mod 64), char_of (128 + c mod 64)])"

definition encode_utf8 :: "ustring \<Rightarrow> bytes" where
  "encode_utf8 u = concat (map utf8_code_point u)"

text \<open>
  Python list subscription with an integer: a negative index counts from the end, and an
  index outside \<open>-len .. len - 1\<close> raises \<open>IndexError\<close>, on reading and on assignment.
\<close>

definition py_position :: "nat \<Rightarrow> int \<Rightarrow> nat outcome" where
  "py_position n i =
     (if 0 \<le> i \<and> i < int n then Inr (nat i)
      else if i < 0 \<and> - int n \<le> i then Inr (nat (int n + i))
      else Inl IndexError)"

definition py_getitem :: "'a list \<Rightarrow> int \<Rightarrow> 'a outcome" where
  "py_getitem xs i = (case py_position (length xs) i of Inl e \<Rightarrow> Inl e | Inr k \<Rightarrow> Inr (xs ! k))"

definition py_setitem :: "'a list \<Rightarrow> int \<Rightarrow> 'a \<Rightarrow> 'a list outcome" where
  "py_setitem xs i v =
     (case py_position (length xs) i of Inl e \<Rightarrow> Inl e | Inr k \<Rightarrow> Inr (xs[k := v]))"

section \<open>The class \<open>setting\<close>\<close>

datatype pytype = FloatType | IntType | StringType

text \<open>
  Modelled from the spec: the module \<open>horus.util.validators\<close> is imported by
  \<open>profile.py\<close> but is not part of the sources at hand. The spec says that float and int
  settings get a numeric-range validator attached at construction, whose bounds
  \<open>setRange\<close> configures. A validator is therefore a record of its kind and its two
  bounds, created with no bounds.
\<close>

record validator =
  v_type :: pytype
  minValue :: "pyval option"
  maxValue :: "pyval option"

definition validFloat :: validator where
  "validFloat = \<lparr>v_type = FloatType, minValue = None, maxValue = None\<rparr>"

definition validInt :: validator where
  "validInt = \<lparr>v_type = IntType, minValue = None, maxValue = None\<rparr>"

text \<open>
  The fields of a setting object. The list \<open>_conditions\<close> holds callables that only
  \<open>checkConditions\<close> runs; the module adds none and no operation modelled here calls
  them, so the field records how many there are.
\<close>

record setting =
  s_name :: bytes
  s_label :: bytes
  s_tooltip :: bytes
  s_default :: ustring
  s_values :: "ustring list"
  s_type :: pytype
  s_category :: bytes
  s_subcategory :: bytes
  s_validators :: "validator list"
  s_conditions :: nat

text \<open>
  The object-local part of \<open>setting.__init__\<close> (lines 67 to 81): \<open>unicode(default)\<close> may
  raise, the stored values start empty, and the validator follows the declared type.
\<close>

definition new_setting :: "bytes \<Rightarrow> pyval \<Rightarrow> pytype \<Rightarrow> bytes \<Rightarrow> bytes \<Rightarrow> setting outcome" where
  "new_setting name dflt ty category subcategory =
     (case py_unicode dflt of
        Inl e \<Rightarrow> Inl e
      | Inr d \<Rightarrow>
          Inr \<lparr>s_name = name, s_label = name, s_tooltip = [], s_default = d, s_values = [],
               s_type = ty, s_category = category, s_subcategory = subcategory,
               s_validators =
                 (if ty = FloatType then [validFloat]
                  else if ty = IntType then [validInt] else []),
               s_conditions = 0\<rparr>)"

definition setLabel :: "setting \<Rightarrow> bytes \<Rightarrow> bytes \<Rightarrow> setting" where
  "setLabel s label tooltip = s\<lparr>s_label := label, s_tooltip := tooltip\<rparr>"

text \<open>
  What a method hands back to its caller: \<open>return self\<close> or a bare \<open>return\<close>, which
  yields \<open>None\<close>.
\<close>

datatype returned = ReturnsSelf | ReturnsNone

definition setRange :: "setting \<Rightarrow> pyval option \<Rightarrow> pyval option \<Rightarrow> returned \<times> setting" where
  "setRange s minV maxV =
     (if length (s_validators s) < 1 then (ReturnsNone, s)
      else (ReturnsSelf,
            s\<lparr>s_validators :=
                 (s_validators s)[0 := (s_validators s ! 0)\<lparr>minValue := minV, maxValue := maxV\<rparr>]\<rparr>))"

definition isPreference :: "setting \<Rightarrow> bool" where
  "isPreference s = (s_category s = ''preference'')"

definition isMachineSetting :: "setting \<Rightarrow> bool" where
  "isMachineSetting s = (s_category s = ''machine'')"

definition isProfile :: "setting \<Rightarrow> bool" where
  "isProfile s = (\<not> isPreference s \<and> \<not> isMachineSetting s)"

text \<open>
  The global \<open>_selectedMachineIndex\<close> is passed to the methods that read it, as their
  first argument.
\<close>

definition getValueIndex :: "int \<Rightarrow> setting \<Rightarrow> int" where
  "getValueIndex sel s = (if isMachineSetting s \<or> isProfile s then sel else 0)"

definition resolve_index :: "int \<Rightarrow> setting \<Rightarrow> int option \<Rightarrow> int" where
  "resolve_index sel s idx = (case idx of None \<Rightarrow> getValueIndex sel s | Some i \<Rightarrow> i)"

definition getValue :: "int \<Rightarrow> setting \<Rightarrow> int option \<Rightarrow> ustring outcome" where
  "getValue sel s idx =
     (let index = resolve_index sel s idx in
      if index \<ge> int (length (s_values s)) then Inr (s_default s)
      else py_getitem (s_values s) index)"

text \<open>The loop \<open>while index >= len(self._values): self._values.append(self._default)\<close>.\<close>

function pad_values :: "ustring \<Rightarrow> int \<Rightarrow> ustring list \<Rightarrow> ustring list" where
  "pad_values d index vs =
     (if index \<ge> int (length vs) then pad_values d index (vs @ [d]) else vs)"
  by pat_completeness auto
termination
  by (relation "measure (\<lambda>(d, index, vs). nat (index + 1 - int (length vs)))") auto

declare pad_values.simps [simp del]

text \<open>
  \<open>setValue\<close> mutates the object, so it returns the object with the outcome. The padding
  loop runs first; \<open>unicode(value)\<close> is evaluated next and the subscript assignment last,
  so an exception from either leaves the padding in place.
\<close>

definition setValue :: "int \<Rightarrow> setting \<Rightarrow> pyval \<Rightarrow> int option \<Rightarrow> unit outcome \<times> setting" where
  "setValue sel s v idx =
     (let index = resolve_index sel s idx;
          padded = s\<lparr>s_values := pad_values (s_default s) index (s_values s)\<rparr>
      in case py_unicode v of
           Inl e \<Rightarrow> (Inl e, padded)
         | Inr u \<Rightarrow>
             (case py_setitem (s_values padded) index u of
                Inl e \<Rightarrow> (Inl e, padded)
              | Inr vs \<Rightarrow> (Inr (), padded\<lparr>s_values := vs\<rparr>)))"

section \<open>The registry and the module's declarations\<close>

text \<open>
  The module keeps three globals: the list \<open>settingsList\<close>, the dictionary
  \<open>settingsDictionary\<close> and \<open>_selectedMachineIndex\<close>. List and dictionary hold
  references to the same objects. Every setting object is appended to \<open>settingsList\<close>
  when it is created and nothing is ever removed from the list, so an object is identified
  by its position in \<open>settingsList\<close>, and the dictionary maps a name to such a position.
\<close>

record registry =
  settingsList :: "setting list"
  settingsDictionary :: "bytes \<rightharpoonup> nat"
  selectedMachineIndex :: int

definition empty_registry :: registry where
  "empty_registry = \<lparr>settingsList = [], settingsDictionary = Map.empty, selectedMachineIndex = 0\<rparr>"

text \<open>
  \<open>setting.__init__\<close>, lines 66 to 86: the new object is stored in the dictionary under
  its name, whatever was there, and appended to the list. The result is the new object.
\<close>

definition setting_init ::
  "registry \<Rightarrow> bytes \<Rightarrow> pyval \<Rightarrow> pytype \<Rightarrow> bytes \<Rightarrow> bytes \<Rightarrow> nat outcome \<times> registry" where
  "setting_init r name dflt ty category subcategory =
     (case new_setting name dflt ty category subcategory of
        Inl e \<Rightarrow> (Inl e, r)
      | Inr s \<Rightarrow>
          (Inr (length (settingsList r)),
           r\<lparr>settingsDictionary := (settingsDictionary r)(name \<mapsto> length (settingsList r)),
             settingsList := settingsList r @ [s]\<rparr>))"

text \<open>Calling a method that mutates the object at position \<open>a\<close>.\<close>

definition on_object :: "nat \<Rightarrow> (setting \<Rightarrow> setting) \<Rightarrow> registry \<Rightarrow> registry" where
  "on_object a f r = r\<lparr>settingsList := (settingsList r)[a := f (settingsList r ! a)]\<rparr>"

definition reg_getValue :: "registry \<Rightarrow> nat \<Rightarrow> int option \<Rightarrow> ustring outcome" where
  "reg_getValue r a idx = getValue (selectedMachineIndex r) (settingsList r ! a) idx"

definition reg_setValue :: "registry \<Rightarrow> nat \<Rightarrow> pyval \<Rightarrow> int option \<Rightarrow> unit outcome \<times> registry" where
  "reg_setValue r a v idx =
     (case setValue (selectedMachineIndex r) (settingsList r ! a) v idx of
        (res, s') \<Rightarrow> (res, on_object a (\<lambda>_. s') r))"

text \<open>
  The declarations of lines 182 to 187, run in order on the empty registry. \<open>setRange\<close>
  and \<open>setLabel\<close> are called on the object the constructor returned.
\<close>

definition module_declarations :: "unit outcome \<times> registry" where
  "module_declarations =
     (case setting_init empty_registry ''step_degrees'' (PyFloat ''0.45'') FloatType
             ''basic'' ''Step Degrees'' of
        (Inl e, r) \<Rightarrow> (Inl e, r)
      | (Inr a1, r1) \<Rightarrow>
     (case setting_init
             (on_object a1 (\<lambda>s. snd (setRange s (Some (PyFloat ''0.1125'')) None)) r1)
             ''step_delay'' (PyInt 800) IntType ''basic'' ''Step Delay'' of
        (Inl e, r) \<Rightarrow> (Inl e, r)
      | (Inr a2, r2) \<Rightarrow>
     (case setting_init
             (on_object a2 (\<lambda>s. snd (setRange s (Some (PyInt 100)) (Some (PyInt 10000)))) r2)
             ''machine_name'' (PyStr []) StringType ''machine'' ''hidden'' of
        (Inl e, r) \<Rightarrow> (Inl e, r)
      | (Inr a3, r3) \<Rightarrow>
     (case setting_init r3 ''language'' (PyStr ''English'') StringType ''preference'' ''hidden'' of
        (Inl e, r) \<Rightarrow> (Inl e, r)
      | (Inr a4, r4) \<Rightarrow>
          (Inr (),
           on_object a4
             (\<lambda>s. setLabel s ''Language''
                ''Change the language in which Horus runs. Switching language requires a restart of Horus'')
             r4)))))"

text \<open>The four objects those declarations create, written out.\<close>

definition step_degrees_setting :: setting where
  "step_degrees_setting =
     \<lparr>s_name = ''step_degrees'', s_label = ''step_degrees'', s_tooltip = [],
      s_default = map of_char ''0.45'', s_values = [], s_type = FloatType,
      s_category = ''basic'', s_subcategory = ''Step Degrees'',
      s_validators = [\<lparr>v_type = FloatType, minValue = Some (PyFloat ''0.1125''), maxValue = None\<rparr>],
      s_conditions = 0\<rparr>"

definition step_delay_setting :: setting where
  "step_delay_setting =
     \<lparr>s_name = ''step_delay'', s_label = ''step_delay'', s_tooltip = [],
      s_default = map of_char ''800'', s_values = [], s_type = IntType,
      s_category = ''basic'', s_subcategory = ''Step Delay'',
      s_validators = [\<lparr>v_type = IntType, minValue = Some (PyInt 100), maxValue = Some (PyInt 10000)\<rparr>],
      s_conditions = 0\<rparr>"

definition machine_name_setting :: setting where
  "machine_name_setting =
     \<lparr>s_name = ''machine_name'', s_label = ''machine_name'', s_tooltip = [],
      s_default = [], s_values = [], s_type = StringType,
      s_category = ''machine'', s_subcategory = ''hidden'',
      s_validators = [], s_conditions = 0\<rparr>"

definition language_setting :: setting where
  "language_setting =
     \<lparr>s_name = ''language'', s_label = ''Language'',
      s_tooltip = ''Change the language in which Horus runs. Switching language requires a restart of Horus'',
      s_default = map of_char ''English'', s_values = [], s_type = StringType,
      s_category = ''preference'', s_subcategory = ''hidden'',
      s_validators = [], s_conditions = 0\<rparr>"

definition initial_registry :: registry where
  "initial_registry =
     \<lparr>settingsList = [step_degrees_setting, step_delay_setting, machine_name_setting, language_setting],
      settingsDictionary =
        [''step_degrees'' \<mapsto> 0, ''step_delay'' \<mapsto> 1, ''machine_name'' \<mapsto> 2, ''language'' \<mapsto> 3],
      selectedMachineIndex = 0\<rparr>"

section \<open>The compact profile string\<close>

text \<open>
  \<open>zlib\<close> and \<open>base64\<close> are libraries outside the repository. They are taken as a
  parameter: the two encoders, and the two decoders, which raise on input they do not
  accept.
\<close>

record transport =
  compress :: "bytes \<Rightarrow> bytes"
  decompress :: "bytes \<Rightarrow> bytes outcome"
  b64encode :: "bytes \<Rightarrow> bytes"
  b64decode :: "bytes \<Rightarrow> bytes outcome"

definition pair_separator :: char where
  "pair_separator = CHR 0x08"

definition block_separator :: char where
  "block_separator = CHR 0x0C"

text \<open>\<open>sep.join(xs)\<close>, \<open>s.split(sep)\<close> and \<open>s.split(sep, 1)\<close> for a separator of one byte.\<close>

fun py_join :: "char \<Rightarrow> bytes list \<Rightarrow> bytes" where
  "py_join sep [] = []"
| "py_join sep [x] = x"
| "py_join sep (x # y # ys) = x @ sep # py_join sep (y # ys)"

fun py_split :: "char \<Rightarrow> bytes \<Rightarrow> bytes list" where
  "py_split sep [] = [[]]"
| "py_split sep (c # cs) =
     (if c = sep then [] # py_split sep cs
      else (case py_split sep cs of
              [] \<Rightarrow> [[c]]
            | w # ws \<Rightarrow> (c # w) # ws))"

definition py_split1 :: "char \<Rightarrow> bytes \<Rightarrow> bytes list" where
  "py_split1 sep s =
     (if sep \<in> set s
      then [takeWhile (\<lambda>c. c \<noteq> sep) s, tl (dropWhile (\<lambda>c. c \<noteq> sep) s)]
      else [s])"

text \<open>
  The tuple assignment \<open>(a, b) = xs\<close> raises \<open>ValueError\<close> unless \<open>xs\<close> has exactly two
  elements.
\<close>

fun unpack_pair :: "'a list \<Rightarrow> ('a \<times> 'a) outcome" where
  "unpack_pair [a, b] = Inr (a, b)"
| "unpack_pair _ = Inl ValueError"

text \<open>
  \<open>getProfileString\<close>, lines 338 to 351. The list \<open>alt\<close> stays empty. \<open>getValue()\<close> is
  called without an index and can raise when the current machine index is negative.
\<close>

fun profile_pairs :: "int \<Rightarrow> setting list \<Rightarrow> bytes list outcome" where
  "profile_pairs sel [] = Inr []"
| "profile_pairs sel (s # ss) =
     (if isProfile s then
        (case getValue sel s None of
           Inl e \<Rightarrow> Inl e
         | Inr v \<Rightarrow>
             (case profile_pairs sel ss of
                Inl e \<Rightarrow> Inl e
              | Inr p \<Rightarrow> Inr ((s_name s @ ''='' @ encode_utf8 v) # p)))
      else profile_pairs sel ss)"

definition getProfileString :: "transport \<Rightarrow> registry \<Rightarrow> bytes outcome" where
  "getProfileString t r =
     (case profile_pairs (selectedMachineIndex r) (settingsList r) of
        Inl e \<Rightarrow> Inl e
      | Inr p \<Rightarrow>
          Inr (b64encode t (compress t
                 (py_join pair_separator p @ block_separator # py_join pair_separator []))))"

text \<open>
  \<open>setProfileFromString\<close>, lines 317 to 336. The two loops differ in the \<open>isProfile\<close>
  test. The value read from the string is a byte string, and \<open>setValue\<close> converts it with
  \<open>unicode(value)\<close>. An exception leaves the registry as the statements before it made
  it.
\<close>

definition apply_profile_option :: "registry \<Rightarrow> bytes \<Rightarrow> unit outcome \<times> registry" where
  "apply_profile_option r option =
     (if length option > 0 then
        (case unpack_pair (py_split1 CHR ''='' option) of
           Inl e \<Rightarrow> (Inl e, r)
         | Inr (key, val) \<Rightarrow>
             (case settingsDictionary r key of
                None \<Rightarrow> (Inr (), r)
              | Some a \<Rightarrow>
                  if isProfile (settingsList r ! a) then reg_setValue r a (PyStr val) None
                  else (Inr (), r)))
      else (Inr (), r))"

definition apply_alt_option :: "registry \<Rightarrow> bytes \<Rightarrow> unit outcome \<times> registry" where
  "apply_alt_option r option =
     (if length option > 0 then
        (case unpack_pair (py_split1 CHR ''='' option) of
           Inl e \<Rightarrow> (Inl e, r)
         | Inr (key, val) \<Rightarrow>
             (case settingsDictionary r key of
                None \<Rightarrow> (Inr (), r)
              | Some a \<Rightarrow> reg_setValue r a (PyStr val) None))
      else (Inr (), r))"

fun for_each_option ::
  "(registry \<Rightarrow> bytes \<Rightarrow> unit outcome \<times> registry) \<Rightarrow> registry \<Rightarrow> bytes list \<Rightarrow>
     unit outcome \<times> registry" where
  "for_each_option body r [] = (Inr (), r)"
| "for_each_option body r (x # xs) =
     (case body r x of
        (Inl e, r') \<Rightarrow> (Inl e, r')
      | (Inr _, r') \<Rightarrow> for_each_option body r' xs)"

definition setProfileFromString :: "transport \<Rightarrow> registry \<Rightarrow> bytes \<Rightarrow> unit outcome \<times> registry" where
  "setProfileFromString t r options =
     (case b64decode t options of
        Inl e \<Rightarrow> (Inl e, r)
      | Inr decoded \<Rightarrow>
     (case decompress t decoded of
        Inl e \<Rightarrow> (Inl e, r)
      | Inr payload \<Rightarrow>
     (case unpack_pair (py_split1 block_separator payload) of
        Inl e \<Rightarrow> (Inl e, r)
      | Inr (profileOpts, alt) \<Rightarrow>
     (case for_each_option apply_profile_option r (py_split pair_separator profileOpts) of
        (Inl e, r') \<Rightarrow> (Inl e, r')
      | (Inr _, r') \<Rightarrow> for_each_option apply_alt_option r' (py_split pair_separator alt)))))"

text \<open>
  A transport that stores its input unchanged, used to run the functions on concrete
  inputs.
\<close>

definition plain_transport :: transport where
  "plain_transport = \<lparr>compress = (\<lambda>b. b), decompress = Inr, b64encode = (\<lambda>b. b), b64decode = Inr\<rparr>"

section \<open>The configuration files\<close>

text \<open>
  \<open>ConfigParser\<close> is a library outside the repository. A parser object is modelled by
  what it holds: the sections in the order they were added, each with its options in the
  order they were first set. \<open>add_section\<close> refuses a section that exists and the name
  \<open>default\<close> in any case; \<open>set\<close> needs the section to exist and stores the option under
  its lower-case name (\<open>optionxform\<close>). The module only uses the section names
  \<open>profile\<close>, \<open>profile_N\<close>, \<open>preference\<close> and \<open>machine_N\<close>, so the defaults section is
  left out.
\<close>

type_synonym config = "(bytes \<times> (bytes \<times> bytes) list) list"

definition ascii_lower :: "char \<Rightarrow> char" where
  "ascii_lower c =
     (if 65 \<le> (of_char c :: nat) \<and> (of_char c :: nat) \<le> 90 then char_of ((of_char c :: nat) + 32)
      else c)"

definition has_section :: "config \<Rightarrow> bytes \<Rightarrow> bool" where
  "has_section p section = (section \<in> set (map fst p))"

definition add_section :: "config \<Rightarrow> bytes \<Rightarrow> config outcome" where
  "add_section p section =
     (if map ascii_lower section = ''default'' then Inl ValueError
      else if has_section p section then Inl DuplicateSectionError
      else Inr (p @ [(section, [])]))"

fun set_option :: "(bytes \<times> bytes) list \<Rightarrow> bytes \<Rightarrow> bytes \<Rightarrow> (bytes \<times> bytes) list" where
  "set_option [] k v = [(k, v)]"
| "set_option ((k', v') # es) k v =
     (if k' = k then (k, v) # es else (k', v') # set_option es k v)"

fun config_set :: "config \<Rightarrow> bytes \<Rightarrow> bytes \<Rightarrow> bytes \<Rightarrow> config outcome" where
  "config_set [] section k v = Inl NoSectionError"
| "config_set ((s, es) # p) section k v =
     (if s = section then Inr ((s, set_option es (map ascii_lower k) v) # p)
      else (case config_set p section k v of
              Inl e \<Rightarrow> Inl e
            | Inr p' \<Rightarrow> Inr ((s, es) # p')))"

text \<open>
  \<open>parser.write(open(filename, 'w'))\<close>: the file system is a parameter that says which
  files can be written; the result is what the file then holds, or \<open>IOError\<close>.
\<close>

definition write_config :: "(bytes \<Rightarrow> bool) \<Rightarrow> bytes \<Rightarrow> config \<Rightarrow> config outcome" where
  "write_config writable filename p = (if writable filename then Inr p else Inl IOError)"

text \<open>
  \<open>getMachineSetting\<close>, lines 519 to 525. On an unknown name, or one that is not a
  machine setting, it prints a diagnostic (not modelled) and returns the byte string
  \<open>''\<close>; otherwise it returns the unicode value.
\<close>

definition getMachineSetting :: "registry \<Rightarrow> bytes \<Rightarrow> int option \<Rightarrow> pyval outcome" where
  "getMachineSetting r name idx =
     (case settingsDictionary r name of
        None \<Rightarrow> Inr (PyStr [])
      | Some a \<Rightarrow>
          if isMachineSetting (settingsList r ! a) then
            (case reg_getValue r a idx of Inl e \<Rightarrow> Inl e | Inr v \<Rightarrow> Inr (PyUnicode v))
          else Inr (PyStr []))"

text \<open>The test \<open>x != ''\<close> of line 465.\<close>

fun differs_from_empty :: "pyval \<Rightarrow> bool" where
  "differs_from_empty (PyStr b) = (b \<noteq> [])"
| "differs_from_empty (PyUnicode u) = (u \<noteq> [])"
| "differs_from_empty (PyInt i) = True"
| "differs_from_empty (PyFloat t) = True"

text \<open>The section names \<open>'machine_%d' % (n)\<close> and \<open>'profile_%d' % (n)\<close>.\<close>

definition machine_section :: "nat \<Rightarrow> bytes" where
  "machine_section n = ''machine_'' @ show_nat n"

definition profile_section :: "nat \<Rightarrow> bytes" where
  "profile_section n = ''profile_'' @ show_nat n"

text \<open>
  \<open>savePreferences\<close>, lines 454 to 471: the loop over the preferences, the \<open>while\<close> loop
  over the machines with its inner loop over the machine settings, and the write. The
  \<open>while\<close> loop has no bound of its own, so it is a partial function: \<open>None\<close> stands for a
  loop that never ends.
\<close>

fun save_preference_settings :: "int \<Rightarrow> setting list \<Rightarrow> config \<Rightarrow> config outcome" where
  "save_preference_settings sel [] p = Inr p"
| "save_preference_settings sel (s # ss) p =
     (if isPreference s then
        (case getValue sel s None of
           Inl e \<Rightarrow> Inl e
         | Inr v \<Rightarrow>
             (case config_set p ''preference'' (s_name s) (encode_utf8 v) of
                Inl e \<Rightarrow> Inl e
              | Inr p' \<Rightarrow> save_preference_settings sel ss p'))
      else save_preference_settings sel ss p)"

fun save_machine_settings :: "int \<Rightarrow> nat \<Rightarrow> setting list \<Rightarrow> config \<Rightarrow> config outcome" where
  "save_machine_settings sel n [] p = Inr p"
| "save_machine_settings sel n (s # ss) p =
     (if isMachineSetting s then
        (case getValue sel s (Some (int n)) of
           Inl e \<Rightarrow> Inl e
         | Inr v \<Rightarrow>
             (case config_set p (machine_section n) (s_name s) (encode_utf8 v) of
                Inl e \<Rightarrow> Inl e
              | Inr p' \<Rightarrow> save_machine_settings sel n ss p'))
      else save_machine_settings sel n ss p)"

partial_function (option) machine_sections :: "registry \<Rightarrow> nat \<Rightarrow> config \<Rightarrow> config outcome option" where
  "machine_sections r n p =
     (case getMachineSetting r ''machine_name'' (Some (int n)) of
        Inl e \<Rightarrow> Some (Inl e)
      | Inr name \<Rightarrow>
          if differs_from_empty name then
            (case add_section p (machine_section n) of
               Inl e \<Rightarrow> Some (Inl e)
             | Inr p1 \<Rightarrow>
                 (case save_machine_settings (selectedMachineIndex r) n (settingsList r) p1 of
                    Inl e \<Rightarrow> Some (Inl e)
                  | Inr p2 \<Rightarrow> machine_sections r (n + 1) p2))
          else Some (Inr p))"

declare machine_sections.simps [code]

definition savePreferences :: "(bytes \<Rightarrow> bool) \<Rightarrow> registry \<Rightarrow> bytes \<Rightarrow> config outcome option" where
  "savePreferences writable r filename =
     (case add_section [] ''preference'' of
        Inl e \<Rightarrow> Some (Inl e)
      | Inr p0 \<Rightarrow>
     (case save_preference_settings (selectedMachineIndex r) (settingsList r) p0 of
        Inl e \<Rightarrow> Some (Inl e)
      | Inr p1 \<Rightarrow>
     (case machine_sections r 0 p1 of
        None \<Rightarrow> None
      | Some (Inl e) \<Rightarrow> Some (Inl e)
      | Some (Inr p2) \<Rightarrow> Some (write_config writable filename p2))))"

text \<open>
  \<open>saveProfile\<close>, lines 283 to 307. The multi-instance branch calls \<open>getMachineCount()\<close>
  (line 295). The module neither defines nor imports that name, so evaluating the call
  raises \<open>NameError\<close>.
\<close>

definition getMachineCount :: "registry \<Rightarrow> int outcome" where
  "getMachineCount r = Inl NameError"

fun save_profile_instances :: "int \<Rightarrow> setting \<Rightarrow> nat list \<Rightarrow> config \<Rightarrow> config outcome" where
  "save_profile_instances sel s [] p = Inr p"
| "save_profile_instances sel s (n # ns) p =
     (case (if \<not> has_section p (profile_section n) then add_section p (profile_section n)
            else Inr p) of
        Inl e \<Rightarrow> Inl e
      | Inr p1 \<Rightarrow>
          (case getValue sel s (Some (int n)) of
             Inl e \<Rightarrow> Inl e
           | Inr v \<Rightarrow>
               (case config_set p1 (profile_section n) (s_name s) (encode_utf8 v) of
                  Inl e \<Rightarrow> Inl e
                | Inr p2 \<Rightarrow> save_profile_instances sel s ns p2)))"

fun save_all_profiles :: "registry \<Rightarrow> setting list \<Rightarrow> config \<Rightarrow> config outcome" where
  "save_all_profiles r [] p = Inr p"
| "save_all_profiles r (s # ss) p =
     (if isPreference s \<or> isMachineSetting s then save_all_profiles r ss p
      else
        (case getMachineCount r of
           Inl e \<Rightarrow> Inl e
         | Inr count \<Rightarrow>
             (case save_profile_instances (selectedMachineIndex r) s [0..<nat count] p of
                Inl e \<Rightarrow> Inl e
              | Inr p' \<Rightarrow> save_all_profiles r ss p')))"

fun save_current_profile :: "int \<Rightarrow> setting list \<Rightarrow> config \<Rightarrow> config outcome" where
  "save_current_profile sel [] p = Inr p"
| "save_current_profile sel (s # ss) p =
     (if isPreference s \<or> isMachineSetting s then save_current_profile sel ss p
      else
        (case getValue sel s None of
           Inl e \<Rightarrow> Inl e
         | Inr v \<Rightarrow>
             (case config_set p ''profile'' (s_name s) (encode_utf8 v) of
                Inl e \<Rightarrow> Inl e
              | Inr p' \<Rightarrow> save_current_profile sel ss p')))"

definition saveProfile :: "(bytes \<Rightarrow> bool) \<Rightarrow> registry \<Rightarrow> bytes \<Rightarrow> bool \<Rightarrow> config outcome" where
  "saveProfile writable r filename allMachines =
     (if allMachines then
        (case save_all_profiles r (settingsList r) [] of
           Inl e \<Rightarrow> Inl e
         | Inr p \<Rightarrow> write_config writable filename p)
      else
        (case add_section [] ''profile'' of
           Inl e \<Rightarrow> Inl e
         | Inr p0 \<Rightarrow>
             (case save_current_profile (selectedMachineIndex r) (settingsList r) p0 of
                Inl e \<Rightarrow> Inl e
              | Inr p \<Rightarrow> write_config writable filename p)))"

text \<open>The module's registry after the first machine was named \<open>ciclop\<close>.\<close>

definition named_registry :: registry where
  "named_registry = snd (reg_setValue initial_registry 2 (PyStr ''ciclop'') (Some 0))"

section \<open>Vocabulary for the round trip of the profile string\<close>

text \<open>
  The stored value of a setting at an index that is not negative, as \<open>getValue\<close> reads it.
\<close>

definition value_at :: "setting \<Rightarrow> nat \<Rightarrow> ustring" where
  "value_at s n = (if n < length (s_values s) then s_values s ! n else s_default s)"

text \<open>
  The compact format has no escaping. A name can be recovered when it contains none of
  \<open>=\<close>, the pair separator and the block separator; a value when it is ASCII text
  without the two separators.
\<close>

definition plain_name :: "bytes \<Rightarrow> bool" where
  "plain_name n = (CHR ''='' \<notin> set n \<and> pair_separator \<notin> set n \<and> block_separator \<notin> set n)"

definition plain_value :: "ustring \<Rightarrow> bool" where
  "plain_value v = list_all (\<lambda>c. c < 128 \<and> c \<noteq> 8 \<and> c \<noteq> 12) v"

text \<open>
  Every profile setting of the registry has such a name and, at the current machine
  index, such a value.
\<close>

definition encodable :: "registry \<Rightarrow> bool" where
  "encodable r =
     list_all (\<lambda>s. \<not> isProfile s \<or>
                 (plain_name (s_name s) \<and>
                  (case getValue (selectedMachineIndex r) s None of
                     Inr v \<Rightarrow> plain_value v | Inl e \<Rightarrow> False)))
       (settingsList r)"

text \<open>
  The dictionary as the constructor leaves it: a name leads to an object of the list
  that carries this name, and to the last one that does.
\<close>

definition dictionary_matches_list :: "registry \<Rightarrow> bool" where
  "dictionary_matches_list r =
     (\<forall>k a. settingsDictionary r k = Some a \<longrightarrow>
        a < length (settingsList r) \<and> s_name (settingsList r ! a) = k \<and>
        (\<forall>b. a < b \<and> b < length (settingsList r) \<longrightarrow> s_name (settingsList r ! b) \<noteq> k))"

text \<open>
  Two registries hold the same declarations when the dictionary and, position by
  position, the names and categories agree; stored values and the selected machine may
  differ.
\<close>

definition same_declarations :: "registry \<Rightarrow> registry \<Rightarrow> bool" where
  "same_declarations r r' =
     (settingsDictionary r' = settingsDictionary r \<and>
      map s_name (settingsList r') = map s_name (settingsList r) \<and>
      map s_category (settingsList r') = map s_category (settingsList r))"

text \<open>What \<open>zlib\<close> and \<open>base64\<close> guarantee: decoding undoes encoding.\<close>

definition transport_inverts :: "transport \<Rightarrow> bool" where
  "transport_inverts t =
     (\<forall>b. decompress t (compress t b) = Inr b \<and> b64decode t (b64encode t b) = Inr b)"

text \<open>
  One \<open>name=value\<close> pair of the string, and the pair \<open>getProfileString\<close> writes for a
  setting.
\<close>

definition pair_of :: "bytes \<times> ustring \<Rightarrow> bytes" where
  "pair_of p = fst p @ ''='' @ encode_utf8 (snd p)"

definition entry_of :: "int \<Rightarrow> setting \<Rightarrow> bytes \<times> ustring" where
  "entry_of sel s = (s_name s, value_at s (nat sel))"

definition entry_ok :: "bytes \<times> ustring \<Rightarrow> bool" where
  "entry_ok p = (CHR ''='' \<notin> set (fst p) \<and> list_all (\<lambda>c. c < 128) (snd p))"

text \<open>What running \<open>setProfileFromString\<close> never changes, and dictionary entries in range.\<close>

definition shape_kept :: "registry \<Rightarrow> registry \<Rightarrow> bool" where
  "shape_kept r r1 =
     (settingsDictionary r1 = settingsDictionary r \<and>
      selectedMachineIndex r1 = selectedMachineIndex r \<and>
      map s_name (settingsList r1) = map s_name (settingsList r) \<and>
      map s_category (settingsList r1) = map s_category (settingsList r))"

definition valid_refs :: "registry \<Rightarrow> bool" where
  "valid_refs r = (\<forall>k a. settingsDictionary r k = Some a \<longrightarrow> a < length (settingsList r))"

text \<open>
  Registries for concrete runs: the module's registry after \<open>step_delay\<close> was set to
  \<open>900\<close>, the same after \<open>step_delay\<close> was set to the unicode string of the single
  code point 233 (e with acute accent), and a registry whose only setting has a backspace
  byte in its name, before and after its value was set to \<open>2\<close>.
\<close>

definition tuned_registry :: registry where
  "tuned_registry = snd (reg_setValue initial_registry 1 (PyStr ''900'') None)"

definition accented_registry :: registry where
  "accented_registry = snd (reg_setValue initial_registry 1 (PyUnicode [233]) None)"

definition awkward_name :: bytes where
  "awkward_name = [CHR ''a'', CHR 0x08, CHR ''b'']"

definition awkward_registry :: registry where
  "awkward_registry =
     snd (setting_init empty_registry awkward_name (PyStr ''1'') StringType ''basic'' ''basic'')"

definition awkward_tuned :: registry where
  "awkward_tuned = snd (reg_setValue awkward_registry 0 (PyStr ''2'') None)"

section \<open>Properties of a single setting\<close>

lemma show_nat_800: "show_nat 800 = ''800''"
  by (simp add: show_nat.simps [of 800] show_nat.simps [of 80] show_nat.simps [of 8] digit_char_def)

lemma pad_values_replicate:
  "pad_values d index vs = vs @ replicate (nat (index + 1 - int (length vs))) d"
proof (induction d index vs rule: pad_values.induct)
  case (1 d index vs)
  show ?case
  proof (cases "index \<ge> int (length vs)")
    case True
    then have "nat (index + 1 - int (length vs)) = Suc (nat (index + 1 - int (length (vs @ [d]))))"
      by simp
    with True 1 show ?thesis
      by (subst pad_values.simps) (simp add: replicate_app_Cons_same)
  next
    case False
    then show ?thesis by (subst pad_values.simps) simp
  qed
qed

lemma length_pad_values:
  "length (pad_values d index vs) = max (length vs) (nat (index + 1))"
  by (simp add: pad_values_replicate)

lemma resolve_index_values [simp]:
  "resolve_index sel (s\<lparr>s_values := vs\<rparr>) idx = resolve_index sel s idx"
  by (simp add: resolve_index_def getValueIndex_def isMachineSetting_def isProfile_def
      isPreference_def split: option.splits)

lemma py_position_nonneg:
  "0 \<le> i \<Longrightarrow> i < int n \<Longrightarrow> py_position n i = Inr (nat i)"
  by (simp add: py_position_def)

lemma setValue_stores:
  assumes "py_unicode v = Inr u" and "0 \<le> resolve_index sel s idx"
  shows "setValue sel s v idx =
           (Inr (), s\<lparr>s_values := (pad_values (s_default s) (resolve_index sel s idx) (s_values s))
                                        [nat (resolve_index sel s idx) := u]\<rparr>)"
proof -
  let ?i = "resolve_index sel s idx"
  let ?p = "pad_values (s_default s) ?i (s_values s)"
  have "?i < int (length ?p)"
    using assms(2) by (simp add: length_pad_values)
  then have "py_setitem ?p ?i u = Inr (?p[nat ?i := u])"
    using assms(2) by (simp add: py_setitem_def py_position_nonneg)
  then show ?thesis
    using assms(1) by (simp add: setValue_def Let_def)
qed

lemma getValue_in_range:
  assumes "0 \<le> resolve_index sel s idx" and "resolve_index sel s idx < int (length (s_values s))"
  shows "getValue sel s idx = Inr (s_values s ! nat (resolve_index sel s idx))"
  using assms by (simp add: getValue_def Let_def py_getitem_def py_position_nonneg)

lemma getValue_beyond:
  assumes "int (length (s_values s)) \<le> resolve_index sel s idx"
  shows "getValue sel s idx = Inr (s_default s)"
  using assms by (simp add: getValue_def Let_def)

text \<open>
  C2. For every setting, every value that has a string form and every index that is not
  negative (passed explicitly, or the default index when none is passed),
  \<open>setValue(value, index)\<close> succeeds and \<open>getValue(index)\<close> then returns the
  string form \<open>unicode(value)\<close>.
\<close>

theorem setValue_then_getValue:
  assumes "py_unicode v = Inr u" and "0 \<le> resolve_index sel s idx"
  shows "fst (setValue sel s v idx) = Inr () \<and>
         getValue sel (snd (setValue sel s v idx)) idx = Inr u"
proof -
  let ?i = "resolve_index sel s idx"
  let ?p = "pad_values (s_default s) ?i (s_values s)"
  have len: "nat ?i < length ?p"
    using assms(2) by (simp add: length_pad_values)
  have "getValue sel (s\<lparr>s_values := ?p[nat ?i := u]\<rparr>) idx = Inr ((?p[nat ?i := u]) ! nat ?i)"
    using assms(2) len
      getValue_in_range [of sel "s\<lparr>s_values := ?p[nat ?i := u]\<rparr>" idx] by simp
  with len show ?thesis
    by (simp add: setValue_stores [OF assms])
qed

text \<open>
  C3. When \<open>setValue\<close> is called with an index \<open>k\<close> greater than the stored length, the
  padding loop appends the default at every index from the old length up to \<open>k\<close>, the new
  value then replaces the entry at \<open>k\<close>, and afterwards \<open>getValue\<close> returns the default at
  every index in \<open>[len, k)\<close>. For any setting, \<open>getValue\<close> at an index at or beyond the
  stored length returns the default.
\<close>

theorem setValue_pads_with_default:
  assumes "int (length (s_values s)) < k" and "py_unicode v = Inr u"
  shows "pad_values (s_default s) k (s_values s) =
           s_values s @ replicate (nat k - length (s_values s)) (s_default s) @ [s_default s] \<and>
         s_values (snd (setValue sel s v (Some k))) =
           s_values s @ replicate (nat k - length (s_values s)) (s_default s) @ [u] \<and>
         (\<forall>j. int (length (s_values s)) \<le> j \<and> j < k \<longrightarrow>
              getValue sel (snd (setValue sel s v (Some k))) (Some j) = Inr (s_default s)) \<and>
         (\<forall>t j. int (length (s_values t)) \<le> j \<longrightarrow> getValue sel t (Some j) = Inr (s_default t))"
proof -
  let ?n = "length (s_values s)"
  let ?d = "s_default s"
  let ?s' = "snd (setValue sel s v (Some k))"
  have k0: "0 \<le> resolve_index sel s (Some k)" and rk: "resolve_index sel s (Some k) = k"
    using assms(1) by (simp_all add: resolve_index_def)
  have cnt: "nat (k + 1 - int ?n) = Suc (nat k - ?n)"
    using assms(1) by linarith
  have pad: "pad_values ?d k (s_values s) = s_values s @ replicate (nat k - ?n) ?d @ [?d]"
    by (simp add: pad_values_replicate cnt replicate_append_same)
  have pos: "nat k = length (s_values s @ replicate (nat k - ?n) ?d)"
    using assms(1) by simp
  have upd: "(s_values s @ replicate (nat k - ?n) ?d @ [?d])[nat k := u] =
               s_values s @ replicate (nat k - ?n) ?d @ [u]"
    using list_update_length [of "s_values s @ replicate (nat k - ?n) ?d" ?d "[]" u] pos
    by simp
  have vals: "s_values ?s' = s_values s @ replicate (nat k - ?n) ?d @ [u]"
    using setValue_stores [OF assms(2) k0] by (simp add: rk pad upd)
  have dflt: "s_default ?s' = ?d"
    using setValue_stores [OF assms(2) k0] by simp
  have padded: "getValue sel ?s' (Some j) = Inr ?d" if "int ?n \<le> j" and "j < k" for j
  proof -
    have j0: "0 \<le> resolve_index sel ?s' (Some j)" and rj: "resolve_index sel ?s' (Some j) = j"
      using that(1) by (simp_all add: resolve_index_def)
    have jlen: "resolve_index sel ?s' (Some j) < int (length (s_values ?s'))"
      using that assms(1) by (simp add: rj vals)
    have a1: "\<not> nat j < ?n" and a2: "nat j - ?n < nat k - ?n"
      using that by linarith+
    have "s_values ?s' ! nat j = ?d"
      using a1 a2 by (simp add: vals nth_append)
    with getValue_in_range [OF j0 jlen] show ?thesis
      by (simp add: rj dflt)
  qed
  have beyond: "getValue sel t (Some j) = Inr (s_default t)" if "int (length (s_values t)) \<le> j"
    for t j using that by (intro getValue_beyond) (simp add: resolve_index_def)
  from pad vals padded beyond show ?thesis by blast
qed

text \<open>
  C7. When no index is passed, \<open>getValue\<close> and \<open>setValue\<close> use \<open>getValueIndex()\<close>, which is
  0 for a setting of category preference and the global current machine index for a
  machine setting and for a profile setting.
\<close>

theorem default_index_by_category:
  "(isPreference s \<longrightarrow> getValueIndex sel s = 0) \<and>
   (isMachineSetting s \<or> isProfile s \<longrightarrow> getValueIndex sel s = sel) \<and>
   getValue sel s None = getValue sel s (Some (getValueIndex sel s)) \<and>
   setValue sel s v None = setValue sel s v (Some (getValueIndex sel s))"
  by (auto simp: getValueIndex_def isProfile_def isPreference_def isMachineSetting_def
      getValue_def setValue_def resolve_index_def)

text \<open>
  C10 (as amended). \<open>getValue\<close> with an explicit index that is not negative always returns
  a value. With a negative index \<open>i\<close> the guard \<open>index >= len(self._values)\<close> does not
  fire and the list is subscripted: when \<open>-len \<le> i\<close> the result is the stored element at
  \<open>len + i\<close>, counted from the end, and when \<open>i < -len\<close> (in particular whenever nothing is
  stored) the access raises \<open>IndexError\<close>; the default is returned in neither case.
\<close>

theorem getValue_negative_index:
  "(0 \<le> i \<longrightarrow> (\<exists>u. getValue sel s (Some i) = Inr u)) \<and>
   (i < 0 \<and> s_values s = [] \<longrightarrow> getValue sel s (Some i) = Inl IndexError) \<and>
   (i < 0 \<and> - int (length (s_values s)) \<le> i \<longrightarrow>
      getValue sel s (Some i) = Inr (s_values s ! nat (int (length (s_values s)) + i))) \<and>
   (i < - int (length (s_values s)) \<longrightarrow> getValue sel s (Some i) = Inl IndexError)"
  by (auto simp: getValue_def Let_def resolve_index_def py_getitem_def py_position_def)

theorem setValue_then_getValue_witness:
  "py_unicode (PyInt 800) = Inr (map of_char ''800'') \<and>
   0 \<le> resolve_index 0 step_delay_setting (Some 1) \<and>
   fst (setValue 0 step_delay_setting (PyInt 800) (Some 1)) = Inr () \<and>
   getValue 0 (snd (setValue 0 step_delay_setting (PyInt 800) (Some 1))) (Some 1) =
     Inr (map of_char ''800'')"
proof -
  have h1: "py_unicode (PyInt 800) = Inr (map of_char ''800'')"
    by (simp add: show_int_def show_nat_800)
  have h2: "0 \<le> resolve_index 0 step_delay_setting (Some 1)"
    by (simp add: resolve_index_def)
  from setValue_then_getValue [OF h1 h2] h1 h2 show ?thesis by blast
qed

theorem setValue_pads_with_default_witness:
  "int (length (s_values machine_name_setting)) < 2 \<and>
   py_unicode (PyStr ''ciclop'') = Inr (map of_char ''ciclop'') \<and>
   s_values (snd (setValue 0 machine_name_setting (PyStr ''ciclop'') (Some 2))) =
     [[], [], map of_char ''ciclop''] \<and>
   getValue 0 (snd (setValue 0 machine_name_setting (PyStr ''ciclop'') (Some 2))) (Some 1) = Inr [] \<and>
   getValue 0 machine_name_setting (Some 5) = Inr []"
proof -
  have h1: "int (length (s_values machine_name_setting)) < 2"
    by (simp add: machine_name_setting_def)
  have h2: "py_unicode (PyStr ''ciclop'') = Inr (map of_char ''ciclop'')"
    by (simp add: ascii_decode_def)
  have d: "s_default machine_name_setting = []" and v: "s_values machine_name_setting = []"
    by (simp_all add: machine_name_setting_def)
  from setValue_pads_with_default [OF h1 h2, of 0] h1 h2 show ?thesis
    by (simp add: d v numeral_2_eq_2)
qed

theorem default_index_by_category_witness:
  "isPreference language_setting \<and> getValueIndex 7 language_setting = 0 \<and>
   isMachineSetting machine_name_setting \<and> getValueIndex 7 machine_name_setting = 7 \<and>
   isProfile step_delay_setting \<and> getValueIndex 7 step_delay_setting = 7"
proof -
  have h1: "isPreference language_setting"
    by (simp add: isPreference_def language_setting_def)
  have h2: "isMachineSetting machine_name_setting"
    by (simp add: isMachineSetting_def machine_name_setting_def)
  have h3: "isProfile step_delay_setting"
    by (simp add: isProfile_def isPreference_def isMachineSetting_def step_delay_setting_def)
  from default_index_by_category [of language_setting 7]
    default_index_by_category [of machine_name_setting 7]
    default_index_by_category [of step_delay_setting 7] h1 h2 h3
  show ?thesis by blast
qed

theorem getValue_negative_index_witness:
  "getValue 0 (machine_name_setting\<lparr>s_values := [[97], [98]]\<rparr>) (Some (- 1)) = Inr [98] \<and>
   getValue 0 (machine_name_setting\<lparr>s_values := [[97], [98]]\<rparr>) (Some (- 3)) = Inl IndexError \<and>
   getValue 0 machine_name_setting (Some (- 1)) = Inl IndexError \<and>
   (\<exists>u. getValue 0 machine_name_setting (Some 4) = Inr u)"
proof -
  have v: "s_values machine_name_setting = []"
    by (simp add: machine_name_setting_def)
  from getValue_negative_index [of "- 1" 0 "machine_name_setting\<lparr>s_values := [[97], [98]]\<rparr>"]
    getValue_negative_index [of "- 3" 0 "machine_name_setting\<lparr>s_values := [[97], [98]]\<rparr>"]
    getValue_negative_index [of "- 1" 0 machine_name_setting]
    getValue_negative_index [of 4 0 machine_name_setting] v
  show ?thesis by simp
qed

text \<open>
  C10 as stated fails: with one stored value and the index \<open>-2\<close>, \<open>getValue\<close> does not
  return an element counted from the end, it raises \<open>IndexError\<close>.
\<close>

theorem getValue_negative_index_counterexample:
  "s_values (machine_name_setting\<lparr>s_values := [[97]]\<rparr>) \<noteq> [] \<and> (- 2 :: int) < 0 \<and>
   getValue 0 (machine_name_setting\<lparr>s_values := [[97]]\<rparr>) (Some (- 2)) = Inl IndexError"
  by (simp add: getValue_def resolve_index_def py_getitem_def py_position_def)

text \<open>
  C5. \<open>setRange\<close> on a setting that has a validator stores both bounds in the first
  validator, leaves the others alone and returns \<open>self\<close>.
\<close>

lemma setRange_with_validator:
  assumes "s_validators s = w # ws"
  shows "setRange s minV maxV =
           (ReturnsSelf, s\<lparr>s_validators := w\<lparr>minValue := minV, maxValue := maxV\<rparr> # ws\<rparr>)"
  using assms by (simp add: setRange_def)

text \<open>
  C5. On a setting without validators (any setting of string type, such as
  \<open>machine_name\<close>) \<open>setRange\<close> leaves the object as it is, but the bare \<open>return\<close> of line
  95 hands \<open>None\<close> back to the caller instead of \<open>self\<close>.
\<close>

theorem setRange_without_validator:
  "s_validators machine_name_setting = [] \<and>
   setRange machine_name_setting (Some (PyInt 1)) (Some (PyInt 2)) =
     (ReturnsNone, machine_name_setting)"
  by (simp add: setRange_def machine_name_setting_def)

section \<open>Properties of the registry\<close>

lemma module_declarations_result: "module_declarations = (Inr (), initial_registry)"
  by (simp add: module_declarations_def setting_init_def new_setting_def empty_registry_def
      ascii_decode_def show_int_def show_nat_800 on_object_def setRange_def setLabel_def
      validFloat_def validInt_def initial_registry_def step_degrees_setting_def
      step_delay_setting_def machine_name_setting_def language_setting_def fun_upd_twist
      numeral_2_eq_2 numeral_3_eq_3)

text \<open>
  C9. Constructing a setting under a name the dictionary already holds overwrites the
  dictionary entry with the new object and appends the new object to the list: the list
  is one element longer, the earlier object is still in it at its place, and a lookup by
  name gives the later object. No other dictionary entry changes.
\<close>

theorem duplicate_name_registration:
  assumes "settingsDictionary r name = Some a0" and "a0 < length (settingsList r)"
    and "setting_init r name dflt ty category subcategory = (Inr a, r')"
  shows "settingsDictionary r' name = Some a \<and> a \<noteq> a0 \<and>
         length (settingsList r') = length (settingsList r) + 1 \<and>
         take (length (settingsList r)) (settingsList r') = settingsList r \<and>
         settingsList r' ! a0 = settingsList r ! a0 \<and>
         new_setting name dflt ty category subcategory = Inr (settingsList r' ! a) \<and>
         s_name (settingsList r' ! a) = name \<and>
         (\<forall>k. k \<noteq> name \<longrightarrow> settingsDictionary r' k = settingsDictionary r k)"
proof -
  obtain s where s: "new_setting name dflt ty category subcategory = Inr s"
    using assms(3) by (cases "new_setting name dflt ty category subcategory")
      (simp_all add: setting_init_def)
  have a: "a = length (settingsList r)"
    and r': "r' = r\<lparr>settingsDictionary := (settingsDictionary r)(name \<mapsto> length (settingsList r)),
                     settingsList := settingsList r @ [s]\<rparr>"
    using assms(3) s by (auto simp: setting_init_def)
  have "s_name s = name"
    using s by (auto simp: new_setting_def split: sum.splits)
  with a r' s assms(2) show ?thesis
    by (simp add: nth_append)
qed

theorem duplicate_name_registration_witness:
  "settingsDictionary initial_registry ''machine_name'' = Some 2 \<and>
   2 < length (settingsList initial_registry) \<and>
   fst (setting_init initial_registry ''machine_name'' (PyStr ''ciclop'') StringType
          ''machine'' ''hidden'') = Inr 4 \<and>
   settingsDictionary
     (snd (setting_init initial_registry ''machine_name'' (PyStr ''ciclop'') StringType
             ''machine'' ''hidden'')) ''machine_name'' = Some 4 \<and>
   length (settingsList
     (snd (setting_init initial_registry ''machine_name'' (PyStr ''ciclop'') StringType
             ''machine'' ''hidden''))) = 5 \<and>
   settingsList
     (snd (setting_init initial_registry ''machine_name'' (PyStr ''ciclop'') StringType
             ''machine'' ''hidden'')) ! 2 = machine_name_setting"
proof -
  let ?call = "setting_init initial_registry ''machine_name'' (PyStr ''ciclop'') StringType
                 ''machine'' ''hidden''"
  have h1: "settingsDictionary initial_registry ''machine_name'' = Some 2"
    by (simp add: initial_registry_def)
  have h2: "2 < length (settingsList initial_registry)"
    by (simp add: initial_registry_def)
  have f: "fst ?call = Inr 4"
    by (simp add: setting_init_def new_setting_def ascii_decode_def initial_registry_def)
  then have h3: "?call = (Inr 4, snd ?call)"
    by (metis prod.collapse)
  have l: "settingsList initial_registry ! 2 = machine_name_setting"
    by (simp add: initial_registry_def)
  from duplicate_name_registration [OF h1 h2 h3] h1 h2 f l show ?thesis
    by (simp add: initial_registry_def)
qed

section \<open>Properties of the compact profile string\<close>

lemma py_split1_absent: "sep \<notin> set s \<Longrightarrow> py_split1 sep s = [s]"
  by (simp add: py_split1_def)

text \<open>
  C4. When the decoded and decompressed payload contains no block separator (byte 0x0C),
  the tuple assignment of line 324 raises \<open>ValueError\<close> before any setting is touched:
  \<open>setProfileFromString\<close> returns the error and the registry it was given.
\<close>

theorem setProfileFromString_without_block_separator:
  assumes "b64decode t options = Inr decoded" and "decompress t decoded = Inr payload"
    and "block_separator \<notin> set payload"
  shows "setProfileFromString t r options = (Inl ValueError, r)"
  using assms by (simp add: setProfileFromString_def py_split1_absent)

theorem setProfileFromString_without_block_separator_witness:
  "b64decode plain_transport ''step_delay=900'' = Inr ''step_delay=900'' \<and>
   decompress plain_transport ''step_delay=900'' = Inr ''step_delay=900'' \<and>
   block_separator \<notin> set ''step_delay=900'' \<and>
   setProfileFromString plain_transport initial_registry ''step_delay=900'' =
     (Inl ValueError, initial_registry)"
proof -
  have h1: "b64decode plain_transport ''step_delay=900'' = Inr ''step_delay=900''"
    and h2: "decompress plain_transport ''step_delay=900'' = Inr ''step_delay=900''"
    by (simp_all add: plain_transport_def)
  have h3: "block_separator \<notin> set ''step_delay=900''"
    by (simp add: block_separator_def)
  from setProfileFromString_without_block_separator [OF h1 h2 h3, of initial_registry] h1 h2 h3
  show ?thesis by blast
qed

section \<open>The round trip of the profile string\<close>

lemma py_split_not_Nil: "py_split sep s \<noteq> []"
  by (induction s) (auto split: list.splits)

lemma py_split_absent: "sep \<notin> set s \<Longrightarrow> py_split sep s = [s]"
  by (induction s) auto

lemma py_split_first: "sep \<notin> set x \<Longrightarrow> py_split sep (x @ sep # rest) = x # py_split sep rest"
  by (induction x) auto

lemma py_split_join:
  "xs \<noteq> [] \<Longrightarrow> list_all (\<lambda>x. sep \<notin> set x) xs \<Longrightarrow> py_split sep (py_join sep xs) = xs"
proof (induction sep xs rule: py_join.induct)
  case (1 sep)
  then show ?case by simp
next
  case (2 sep x)
  then show ?case by (simp add: py_split_absent)
next
  case (3 sep x y ys)
  then show ?case by (simp add: py_split_first)
qed

lemma py_split1_first: "sep \<notin> set x \<Longrightarrow> py_split1 sep (x @ sep # rest) = [x, rest]"
  by (induction x) (auto simp: py_split1_def)

lemma set_py_join: "set (py_join sep xs) \<subseteq> insert sep (\<Union>(set ` set xs))"
  by (induction sep xs rule: py_join.induct) auto

lemma py_join_free:
  "c \<noteq> sep \<Longrightarrow> list_all (\<lambda>x. c \<notin> set x) xs \<Longrightarrow> c \<notin> set (py_join sep xs)"
  by (induction sep xs rule: py_join.induct) auto

lemma of_char_ascii: "c < 128 \<Longrightarrow> (of_char (char_of (c::nat)) :: nat) = c"
  by simp

lemma encode_utf8_ascii:
  "list_all (\<lambda>c. c < 128) v \<Longrightarrow> encode_utf8 v = map char_of v"
  by (induction v) (simp_all add: encode_utf8_def utf8_code_point_def)

lemma ascii_roundtrip:
  assumes "list_all (\<lambda>c. c < 128) v"
  shows "ascii_decode (encode_utf8 v) = Inr v"
proof -
  have "map (of_char \<circ> char_of) v = v" using assms
    by (induction v) simp_all
  moreover have "list_all (\<lambda>c. (of_char c :: nat) < 128) (map char_of v)" using assms
    by (induction v) simp_all
  ultimately show ?thesis
    by (simp add: ascii_decode_def encode_utf8_ascii [OF assms])
qed

lemma of_char_separators:
  "(of_char pair_separator :: nat) = 8" "(of_char block_separator :: nat) = 12"
  by (simp_all add: pair_separator_def block_separator_def)

lemma char_of_pair_separator:
  assumes "c < 128" and "c \<noteq> 8"
  shows "char_of (c::nat) \<noteq> pair_separator"
proof
  assume "char_of c = pair_separator"
  then have "(of_char (char_of c) :: nat) = of_char pair_separator" by simp
  with assms show False by (simp add: of_char_separators)
qed

lemma char_of_block_separator:
  assumes "c < 128" and "c \<noteq> 12"
  shows "char_of (c::nat) \<noteq> block_separator"
proof
  assume "char_of c = block_separator"
  then have "(of_char (char_of c) :: nat) = of_char block_separator" by simp
  with assms show False by (simp add: of_char_separators)
qed

lemma getValue_value_at:
  "0 \<le> resolve_index sel s idx \<Longrightarrow>
   getValue sel s idx = Inr (value_at s (nat (resolve_index sel s idx)))"
proof (cases "resolve_index sel s idx < int (length (s_values s))")
  case True
  assume nonneg: "0 \<le> resolve_index sel s idx"
  with True have "nat (resolve_index sel s idx) < length (s_values s)"
    by (simp add: nat_less_iff)
  with getValue_in_range [OF nonneg True] show ?thesis
    by (simp add: value_at_def)
next
  case False
  assume nonneg: "0 \<le> resolve_index sel s idx"
  with False have "\<not> nat (resolve_index sel s idx) < length (s_values s)"
    by (simp add: nat_less_iff)
  with getValue_beyond [of s sel idx] False show ?thesis
    by (simp add: value_at_def)
qed

lemma resolve_index_profile: "isProfile s \<Longrightarrow> resolve_index sel s None = sel"
  by (simp add: resolve_index_def getValueIndex_def)

lemma isProfile_category: "s_category s = s_category s' \<Longrightarrow> isProfile s = isProfile s'"
  by (simp add: isProfile_def isPreference_def isMachineSetting_def)

lemma profile_pairs_entries:
  "0 \<le> sel \<Longrightarrow>
   profile_pairs sel ss = Inr (map (pair_of \<circ> entry_of sel) (filter isProfile ss))"
  by (induction ss)
     (simp_all add: getValue_value_at resolve_index_profile pair_of_def entry_of_def)

lemma apply_profile_option_pair:
  assumes "CHR ''='' \<notin> set k"
  shows "apply_profile_option r (k @ CHR ''='' # w) =
           (case settingsDictionary r k of
              None \<Rightarrow> (Inr (), r)
            | Some a \<Rightarrow>
                if isProfile (settingsList r ! a) then reg_setValue r a (PyStr w) None
                else (Inr (), r))"
  using py_split1_first [OF assms, of w] by (simp add: apply_profile_option_def)

lemma reg_setValue_profile:
  assumes "0 \<le> selectedMachineIndex r" and "isProfile (settingsList r ! a)"
    and "py_unicode v = Inr u"
  shows "reg_setValue r a v None =
           (Inr (), r\<lparr>settingsList := (settingsList r)
              [a := (settingsList r ! a)
                 \<lparr>s_values := (pad_values (s_default (settingsList r ! a)) (selectedMachineIndex r)
                                 (s_values (settingsList r ! a)))
                              [nat (selectedMachineIndex r) := u]\<rparr>]\<rparr>)"
proof -
  have i: "resolve_index (selectedMachineIndex r) (settingsList r ! a) None = selectedMachineIndex r"
    using assms(2) by (rule resolve_index_profile)
  have "0 \<le> resolve_index (selectedMachineIndex r) (settingsList r ! a) None"
    using assms(1) by (simp add: i)
  from setValue_stores [OF assms(3) this] show ?thesis
    by (simp add: reg_setValue_def on_object_def i)
qed

lemma value_at_stored:
  assumes "0 \<le> i"
  shows "value_at (s\<lparr>s_values := (pad_values d i vs)[nat i := u]\<rparr>) (nat i) = u"
proof -
  have "nat i < length (pad_values d i vs)"
    using assms by (simp add: length_pad_values)
  then show ?thesis by (simp add: value_at_def)
qed

lemma shape_kept_refl: "shape_kept r r"
  by (simp add: shape_kept_def)

lemma shape_kept_trans: "shape_kept r r1 \<Longrightarrow> shape_kept r1 r2 \<Longrightarrow> shape_kept r r2"
  by (simp add: shape_kept_def)

lemma shape_kept_length:
  assumes "shape_kept r r1"
  shows "length (settingsList r1) = length (settingsList r)"
proof -
  have "length (map s_name (settingsList r1)) = length (map s_name (settingsList r))"
    using assms by (simp only: shape_kept_def)
  then show ?thesis by (simp only: length_map)
qed

lemma shape_kept_valid_refs:
  assumes "shape_kept r r1" and "valid_refs r"
  shows "valid_refs r1"
proof -
  have "settingsDictionary r1 = settingsDictionary r"
    using assms(1) by (simp add: shape_kept_def)
  with assms(2) shape_kept_length [OF assms(1)] show ?thesis
    by (simp add: valid_refs_def)
qed

lemma shape_kept_isProfile:
  assumes "shape_kept r r1" and "a < length (settingsList r)"
  shows "isProfile (settingsList r1 ! a) = isProfile (settingsList r ! a)"
proof -
  have "map s_category (settingsList r1) ! a = map s_category (settingsList r) ! a"
    using assms(1) by (simp add: shape_kept_def)
  then have "s_category (settingsList r1 ! a) = s_category (settingsList r ! a)"
    using assms shape_kept_length [OF assms(1)] by simp
  then show ?thesis by (rule isProfile_category)
qed

lemma map_update_same:
  assumes "f y = f (xs ! a)"
  shows "map f (xs[a := y]) = map f xs"
proof (cases "a < length xs")
  case True
  then have "(map f xs)[a := f (xs ! a)] = (map f xs)[a := map f xs ! a]"
    by simp
  then have "(map f xs)[a := f (xs ! a)] = map f xs"
    by (simp only: list_update_id)
  with assms show ?thesis by (simp add: map_update)
next
  case False
  then show ?thesis by (simp add: list_update_beyond)
qed

lemma apply_entry:
  assumes eq: "CHR ''='' \<notin> set k" and ascii: "list_all (\<lambda>c. c < 128) u"
    and sel: "0 \<le> selectedMachineIndex r" and refs: "valid_refs r"
  shows "\<exists>r1. apply_profile_option r (pair_of (k, u)) = (Inr (), r1) \<and> shape_kept r r1 \<and>
           (\<forall>b. settingsDictionary r k \<noteq> Some b \<longrightarrow> settingsList r1 ! b = settingsList r ! b) \<and>
           (\<forall>a. settingsDictionary r k = Some a \<and> isProfile (settingsList r ! a) \<longrightarrow>
                value_at (settingsList r1 ! a) (nat (selectedMachineIndex r)) = u)"
proof (cases "settingsDictionary r k")
  case None
  then show ?thesis
    by (simp add: apply_profile_option_pair [OF eq] pair_of_def shape_kept_refl)
next
  case (Some a)
  show ?thesis
  proof (cases "isProfile (settingsList r ! a)")
    case False
    with Some show ?thesis
      by (simp add: apply_profile_option_pair [OF eq] pair_of_def shape_kept_refl)
  next
    case True
    let ?s = "settingsList r ! a"
    let ?s' = "?s\<lparr>s_values := (pad_values (s_default ?s) (selectedMachineIndex r) (s_values ?s))
                              [nat (selectedMachineIndex r) := u]\<rparr>"
    let ?r1 = "r\<lparr>settingsList := (settingsList r)[a := ?s']\<rparr>"
    have a: "a < length (settingsList r)"
      using refs Some by (simp add: valid_refs_def)
    have u: "py_unicode (PyStr (encode_utf8 u)) = Inr u"
      by (simp add: ascii_roundtrip [OF ascii])
    have "apply_profile_option r (pair_of (k, u)) = reg_setValue r a (PyStr (encode_utf8 u)) None"
      using Some True by (simp add: apply_profile_option_pair [OF eq] pair_of_def)
    then have run: "apply_profile_option r (pair_of (k, u)) = (Inr (), ?r1)"
      by (simp only: reg_setValue_profile [OF sel True u])
    have shape: "shape_kept r ?r1"
      by (simp add: shape_kept_def map_update_same)
    have frame: "settingsList ?r1 ! b = settingsList r ! b" if "settingsDictionary r k \<noteq> Some b" for b
      using that Some by (cases "b = a") simp_all
    have stored: "value_at (settingsList ?r1 ! a) (nat (selectedMachineIndex r)) = u"
      using a by (simp add: value_at_stored [OF sel])
    show ?thesis
    proof (intro exI conjI allI impI)
      show "apply_profile_option r (pair_of (k, u)) = (Inr (), ?r1)" by (rule run)
      show "shape_kept r ?r1" by (rule shape)
      show "settingsList ?r1 ! b = settingsList r ! b" if "settingsDictionary r k \<noteq> Some b" for b
        using that by (rule frame)
      show "value_at (settingsList ?r1 ! a') (nat (selectedMachineIndex r)) = u"
        if "settingsDictionary r k = Some a' \<and> isProfile (settingsList r ! a')" for a'
        using that Some stored by simp
    qed
  qed
qed

lemma for_each_option_append:
  "for_each_option f r (xs @ ys) =
     (case for_each_option f r xs of
        (Inl e, r1) \<Rightarrow> (Inl e, r1)
      | (Inr u, r1) \<Rightarrow> for_each_option f r1 ys)"
  by (induction xs arbitrary: r) (auto split: prod.splits sum.splits)

lemma fold_entries:
  assumes "list_all entry_ok ps" and "0 \<le> selectedMachineIndex r" and "valid_refs r"
  shows "\<exists>r1. for_each_option apply_profile_option r (map pair_of ps) = (Inr (), r1) \<and>
           shape_kept r r1 \<and>
           (\<forall>b. list_all (\<lambda>p. settingsDictionary r (fst p) \<noteq> Some b) ps \<longrightarrow>
                settingsList r1 ! b = settingsList r ! b)"
  using assms
proof (induction ps arbitrary: r)
  case Nil
  then show ?case by (simp add: shape_kept_refl)
next
  case (Cons p ps)
  obtain k u where p: "p = (k, u)" by (cases p)
  from Cons.prems(1) p have head: "entry_ok (k, u)" and rest: "list_all entry_ok ps"
    by simp_all
  from head have eq: "CHR ''='' \<notin> set k" and ascii: "list_all (\<lambda>c. c < 128) u"
    by (simp_all add: entry_ok_def)
  from apply_entry [OF eq ascii Cons.prems(2) Cons.prems(3)]
  obtain r1 where step: "apply_profile_option r (pair_of (k, u)) = (Inr (), r1)"
    and shape1: "shape_kept r r1"
    and frame1: "\<And>b. settingsDictionary r k \<noteq> Some b \<Longrightarrow> settingsList r1 ! b = settingsList r ! b"
    by blast
  have sel1: "0 \<le> selectedMachineIndex r1"
    using shape1 Cons.prems(2) by (simp add: shape_kept_def)
  have refs1: "valid_refs r1"
    using shape1 Cons.prems(3) by (rule shape_kept_valid_refs)
  have dict1: "settingsDictionary r1 = settingsDictionary r"
    using shape1 by (simp add: shape_kept_def)
  from Cons.IH [OF rest sel1 refs1]
  obtain r2 where run2: "for_each_option apply_profile_option r1 (map pair_of ps) = (Inr (), r2)"
    and shape2: "shape_kept r1 r2"
    and frame2: "\<And>b. list_all (\<lambda>p. settingsDictionary r1 (fst p) \<noteq> Some b) ps \<Longrightarrow>
                   settingsList r2 ! b = settingsList r1 ! b"
    by blast
  have run: "for_each_option apply_profile_option r (map pair_of (p # ps)) = (Inr (), r2)"
    using step run2 by (simp add: p)
  have shape: "shape_kept r r2"
    using shape1 shape2 by (rule shape_kept_trans)
  have frame: "settingsList r2 ! b = settingsList r ! b"
    if "list_all (\<lambda>p. settingsDictionary r (fst p) \<noteq> Some b) (p # ps)" for b
  proof -
    from that p have "settingsDictionary r k \<noteq> Some b"
      and "list_all (\<lambda>p. settingsDictionary r1 (fst p) \<noteq> Some b) ps"
      by (simp_all add: dict1)
    then show ?thesis using frame1 frame2 by simp
  qed
  from run shape frame show ?case by blast
qed

lemma fold_entries_target:
  assumes ok: "list_all entry_ok (pre @ (k, u) # post)"
    and sel: "0 \<le> selectedMachineIndex r" and refs: "valid_refs r"
    and key: "settingsDictionary r k = Some a" and prof: "isProfile (settingsList r ! a)"
    and later: "list_all (\<lambda>p. settingsDictionary r (fst p) \<noteq> Some a) post"
  shows "\<exists>r3. for_each_option apply_profile_option r (map pair_of (pre @ (k, u) # post)) = (Inr (), r3) \<and>
           shape_kept r r3 \<and>
           value_at (settingsList r3 ! a) (nat (selectedMachineIndex r)) = u"
proof -
  from ok have ok_pre: "list_all entry_ok pre" and ok_post: "list_all entry_ok post"
    and head: "entry_ok (k, u)"
    by simp_all
  from head have eq: "CHR ''='' \<notin> set k" and ascii: "list_all (\<lambda>c. c < 128) u"
    by (simp_all add: entry_ok_def)
  have a: "a < length (settingsList r)"
    using refs key by (simp add: valid_refs_def)
  from fold_entries [OF ok_pre sel refs]
  obtain r1 where run1: "for_each_option apply_profile_option r (map pair_of pre) = (Inr (), r1)"
    and shape1: "shape_kept r r1"
    by blast
  have sel1: "selectedMachineIndex r1 = selectedMachineIndex r"
    and dict1: "settingsDictionary r1 = settingsDictionary r"
    using shape1 by (simp_all add: shape_kept_def)
  have refs1: "valid_refs r1"
    using shape1 refs by (rule shape_kept_valid_refs)
  have prof1: "isProfile (settingsList r1 ! a)"
    using shape_kept_isProfile [OF shape1 a] prof by simp
  have sel1': "0 \<le> selectedMachineIndex r1"
    using sel sel1 by simp
  from apply_entry [OF eq ascii sel1' refs1]
  obtain r2 where step: "apply_profile_option r1 (pair_of (k, u)) = (Inr (), r2)"
    and shape2: "shape_kept r1 r2"
    and stored: "\<And>a'. settingsDictionary r1 k = Some a' \<and> isProfile (settingsList r1 ! a') \<Longrightarrow>
                   value_at (settingsList r2 ! a') (nat (selectedMachineIndex r1)) = u"
    by auto
  have val2: "value_at (settingsList r2 ! a) (nat (selectedMachineIndex r)) = u"
    using stored [of a] key prof1 by (simp add: dict1 sel1)
  have sel2: "selectedMachineIndex r2 = selectedMachineIndex r"
    and dict2: "settingsDictionary r2 = settingsDictionary r"
    using shape2 sel1 dict1 by (simp_all add: shape_kept_def)
  have refs2: "valid_refs r2"
    using shape2 refs1 by (rule shape_kept_valid_refs)
  have sel2': "0 \<le> selectedMachineIndex r2"
    using sel sel2 by simp
  from fold_entries [OF ok_post sel2' refs2]
  obtain r3 where run3: "for_each_option apply_profile_option r2 (map pair_of post) = (Inr (), r3)"
    and shape3: "shape_kept r2 r3"
    and frame3: "\<And>b. list_all (\<lambda>p. settingsDictionary r2 (fst p) \<noteq> Some b) post \<Longrightarrow>
                   settingsList r3 ! b = settingsList r2 ! b"
    by auto
  have "settingsList r3 ! a = settingsList r2 ! a"
    using frame3 [of a] later by (simp add: dict2)
  with val2 have val3: "value_at (settingsList r3 ! a) (nat (selectedMachineIndex r)) = u"
    by simp
  have run: "for_each_option apply_profile_option r (map pair_of (pre @ (k, u) # post)) = (Inr (), r3)"
    using run1 step run3 by (simp add: for_each_option_append)
  have shape: "shape_kept r r3"
    using shape1 shape2 shape3 by (blast intro: shape_kept_trans)
  from run shape val3 show ?thesis by blast
qed

lemma apply_profile_option_empty: "apply_profile_option r [] = (Inr (), r)"
  by (simp add: apply_profile_option_def)

lemma apply_alt_option_empty: "apply_alt_option r [] = (Inr (), r)"
  by (simp add: apply_alt_option_def)

lemma for_each_split_join:
  assumes "list_all (\<lambda>x. pair_separator \<notin> set x) opts"
  shows "for_each_option apply_profile_option r (py_split pair_separator (py_join pair_separator opts)) =
         for_each_option apply_profile_option r opts"
proof (cases "opts = []")
  case True
  then show ?thesis by (simp add: apply_profile_option_empty)
next
  case False
  then show ?thesis using assms by (simp add: py_split_join)
qed

lemma encode_utf8_plain:
  assumes "plain_value v"
  shows "pair_separator \<notin> set (encode_utf8 v)" and "block_separator \<notin> set (encode_utf8 v)"
proof -
  have ascii: "list_all (\<lambda>c. c < 128) v"
    using assms by (simp add: plain_value_def list_all_iff)
  have "\<forall>c \<in> set v. char_of c \<noteq> pair_separator \<and> char_of c \<noteq> block_separator"
    using assms char_of_pair_separator char_of_block_separator
    by (simp add: plain_value_def list_all_iff)
  then show "pair_separator \<notin> set (encode_utf8 v)" and "block_separator \<notin> set (encode_utf8 v)"
    by (auto simp: encode_utf8_ascii [OF ascii])
qed

lemma pair_of_plain:
  assumes "plain_name k" and "plain_value v"
  shows "pair_separator \<notin> set (pair_of (k, v))" and "block_separator \<notin> set (pair_of (k, v))"
    and "entry_ok (k, v)"
  using assms encode_utf8_plain [OF assms(2)]
  by (simp_all add: pair_of_def plain_name_def entry_ok_def plain_value_def list_all_iff
      pair_separator_def block_separator_def)

lemma separators_differ: "block_separator \<noteq> pair_separator"
  by (simp add: block_separator_def pair_separator_def)

lemma decode_payload:
  assumes tr: "transport_inverts t"
    and ps: "list_all (\<lambda>x. pair_separator \<notin> set x) opts"
    and bs: "list_all (\<lambda>x. block_separator \<notin> set x) opts"
  shows "setProfileFromString t r'
           (b64encode t (compress t (py_join pair_separator opts @ block_separator #
              py_join pair_separator []))) =
         (case for_each_option apply_profile_option r' opts of
            (Inl e, r1) \<Rightarrow> (Inl e, r1)
          | (Inr u, r1) \<Rightarrow> (Inr (), r1))"
proof -
  let ?body = "py_join pair_separator opts"
  have "block_separator \<notin> set ?body"
    using separators_differ bs by (rule py_join_free)
  then have split: "py_split1 block_separator (?body @ block_separator # []) = [?body, []]"
    by (rule py_split1_first)
  have dec: "b64decode t (b64encode t (compress t (?body @ [block_separator]))) =
               Inr (compress t (?body @ [block_separator]))"
    and unz: "decompress t (compress t (?body @ [block_separator])) = Inr (?body @ [block_separator])"
    using tr by (simp_all add: transport_inverts_def)
  show ?thesis
    by (simp add: setProfileFromString_def dec unz split for_each_split_join [OF ps]
        apply_alt_option_empty split: prod.splits sum.splits)
qed

lemma encodable_entry:
  assumes "encodable r" and "0 \<le> selectedMachineIndex r"
    and "s \<in> set (settingsList r)" and "isProfile s"
  shows "plain_name (s_name s)" and "plain_value (value_at s (nat (selectedMachineIndex r)))"
proof -
  have v: "getValue (selectedMachineIndex r) s None = Inr (value_at s (nat (selectedMachineIndex r)))"
    using getValue_value_at [of "selectedMachineIndex r" s None] assms(2,4)
    by (simp add: resolve_index_profile)
  have "plain_name (s_name s) \<and>
        (case getValue (selectedMachineIndex r) s None of Inr v \<Rightarrow> plain_value v | Inl e \<Rightarrow> False)"
    using assms(1,3,4) by (auto simp: encodable_def list_all_iff)
  then show "plain_name (s_name s)" and "plain_value (value_at s (nat (selectedMachineIndex r)))"
    by (simp_all add: v)
qed

lemma same_declarations_shape:
  assumes "same_declarations r r'"
  shows "length (settingsList r') = length (settingsList r)"
    and "settingsDictionary r' = settingsDictionary r"
    and "a < length (settingsList r) \<Longrightarrow> isProfile (settingsList r' ! a) = isProfile (settingsList r ! a)"
proof -
  have "length (map s_name (settingsList r')) = length (map s_name (settingsList r))"
    using assms by (simp only: same_declarations_def)
  then show len: "length (settingsList r') = length (settingsList r)"
    by (simp only: length_map)
  show "settingsDictionary r' = settingsDictionary r"
    using assms by (simp add: same_declarations_def)
  show "isProfile (settingsList r' ! a) = isProfile (settingsList r ! a)" if "a < length (settingsList r)"
  proof -
    have "map s_category (settingsList r') ! a = map s_category (settingsList r) ! a"
      using assms by (simp add: same_declarations_def)
    then have "s_category (settingsList r' ! a) = s_category (settingsList r ! a)"
      using that len by simp
    then show ?thesis by (rule isProfile_category)
  qed
qed

text \<open>
  Where the round trip holds. Let the transport functions invert, let the dictionary
  match the list, let both current machine indices be non-negative, and let every profile
  setting have a name without \<open>=\<close>, 0x08 and 0x0C and a current value that is ASCII text
  without 0x08 and 0x0C. Then \<open>getProfileString\<close> returns a string, and
  \<open>setProfileFromString\<close> applied to it, in any registry with the same declarations,
  succeeds and leaves every profile setting that the dictionary holds under its name with
  the value, at the current index, that it had when \<open>getProfileString\<close> was called.
\<close>

lemma profile_string_roundtrip:
  assumes tr: "transport_inverts t" and dm: "dictionary_matches_list r"
    and sd: "same_declarations r r'"
    and sel: "0 \<le> selectedMachineIndex r" and sel': "0 \<le> selectedMachineIndex r'"
    and enc: "encodable r"
  shows "\<exists>code r''. getProfileString t r = Inr code \<and>
           setProfileFromString t r' code = (Inr (), r'') \<and>
           (\<forall>a. a < length (settingsList r) \<and> isProfile (settingsList r ! a) \<and>
                settingsDictionary r (s_name (settingsList r ! a)) = Some a \<longrightarrow>
                reg_getValue r'' a None = reg_getValue r a None)"
proof -
  let ?sel = "selectedMachineIndex r"
  let ?L = "settingsList r"
  let ?entries = "\<lambda>ss. map (entry_of ?sel) (filter isProfile ss)"
  let ?ps = "?entries ?L"
  let ?opts = "map pair_of ?ps"
  let ?code = "b64encode t (compress t (py_join pair_separator ?opts @ block_separator #
                 py_join pair_separator []))"
  have plain: "plain_name (fst p) \<and> plain_value (snd p)" if "p \<in> set ?ps" for p
    using that encodable_entry [OF enc sel] by (auto simp: entry_of_def)
  have ok: "list_all entry_ok ?ps"
    unfolding list_all_iff
  proof
    fix p assume "p \<in> set ?ps"
    from plain [OF this] pair_of_plain(3) [of "fst p" "snd p"] show "entry_ok p" by simp
  qed
  have free: "pair_separator \<notin> set (pair_of p) \<and> block_separator \<notin> set (pair_of p)"
    if "p \<in> set ?ps" for p
    using plain [OF that] pair_of_plain(1,2) [of "fst p" "snd p"] by simp
  have nps: "list_all (\<lambda>x. pair_separator \<notin> set x) ?opts"
    and nbs: "list_all (\<lambda>x. block_separator \<notin> set x) ?opts"
    using free by (simp_all add: list_all_iff)
  have code: "getProfileString t r = Inr ?code"
    by (simp add: getProfileString_def profile_pairs_entries [OF sel])
  have len': "length (settingsList r') = length ?L"
    and dict': "settingsDictionary r' = settingsDictionary r"
    using same_declarations_shape [OF sd] by simp_all
  have refs': "valid_refs r'"
    using dm by (simp add: valid_refs_def dictionary_matches_list_def len' dict')
  from fold_entries [OF ok sel' refs']
  obtain r'' where run: "for_each_option apply_profile_option r' ?opts = (Inr (), r'')"
    and shape: "shape_kept r' r''"
    by blast
  have dec: "setProfileFromString t r' ?code = (Inr (), r'')"
    using decode_payload [OF tr nps nbs, of r'] run by simp
  have restored: "reg_getValue r'' a None = reg_getValue r a None"
    if a: "a < length ?L" and prof: "isProfile (?L ! a)"
      and key: "settingsDictionary r (s_name (?L ! a)) = Some a" for a
  proof -
    let ?k = "s_name (?L ! a)"
    let ?u = "value_at (?L ! a) (nat ?sel)"
    have parts: "?L = take a ?L @ (?L ! a) # drop (Suc a) ?L"
      using a by (rule id_take_nth_drop)
    have "?ps = ?entries (take a ?L @ (?L ! a) # drop (Suc a) ?L)"
      using parts by simp
    then have ps: "?ps = ?entries (take a ?L) @ (?k, ?u) # ?entries (drop (Suc a) ?L)"
      using prof by (simp add: entry_of_def)
    have later: "list_all (\<lambda>p. settingsDictionary r' (fst p) \<noteq> Some a) (?entries (drop (Suc a) ?L))"
      unfolding list_all_iff
    proof
      fix p assume "p \<in> set (?entries (drop (Suc a) ?L))"
      then obtain s where s: "s \<in> set (drop (Suc a) ?L)" and p: "fst p = s_name s"
        by (auto simp: entry_of_def)
      from s obtain j where j: "j < length (drop (Suc a) ?L)" and sj: "s = drop (Suc a) ?L ! j"
        by (auto simp: in_set_conv_nth)
      let ?b = "Suc a + j"
      have b: "a < ?b" "?b < length ?L" and sb: "s = ?L ! ?b"
        using j sj by simp_all
      show "settingsDictionary r' (fst p) \<noteq> Some a"
      proof
        assume "settingsDictionary r' (fst p) = Some a"
        then have "settingsDictionary r (s_name s) = Some a"
          by (simp add: dict' p)
        with dm have "\<forall>b. a < b \<and> b < length ?L \<longrightarrow> s_name (?L ! b) \<noteq> s_name s"
          by (simp add: dictionary_matches_list_def)
        with b sb show False by blast
      qed
    qed
    have key': "settingsDictionary r' ?k = Some a"
      using key by (simp add: dict')
    have prof': "isProfile (settingsList r' ! a)"
      using same_declarations_shape(3) [OF sd a] prof by simp
    have ok': "list_all entry_ok (?entries (take a ?L) @ (?k, ?u) # ?entries (drop (Suc a) ?L))"
      using ok ps by simp
    from fold_entries_target [OF ok' sel' refs' key' prof' later]
    obtain r3 where run3: "for_each_option apply_profile_option r'
          (map pair_of (?entries (take a ?L) @ (?k, ?u) # ?entries (drop (Suc a) ?L))) = (Inr (), r3)"
      and val3: "value_at (settingsList r3 ! a) (nat (selectedMachineIndex r')) = ?u"
      by blast
    have "map pair_of (?entries (take a ?L) @ (?k, ?u) # ?entries (drop (Suc a) ?L)) = ?opts"
      using ps by simp
    with run3 run have "r3 = r''" by simp
    with val3 have val: "value_at (settingsList r'' ! a) (nat (selectedMachineIndex r')) = ?u"
      by simp
    have a': "a < length (settingsList r')"
      using a len' by simp
    have prof'': "isProfile (settingsList r'' ! a)"
      using shape_kept_isProfile [OF shape a'] prof' by simp
    have sel'': "selectedMachineIndex r'' = selectedMachineIndex r'"
      using shape by (simp add: shape_kept_def)
    have "reg_getValue r'' a None = Inr (value_at (settingsList r'' ! a) (nat (selectedMachineIndex r')))"
      using getValue_value_at [of "selectedMachineIndex r'" "settingsList r'' ! a" None] sel' prof''
      by (simp add: reg_getValue_def sel'' resolve_index_profile)
    moreover have "reg_getValue r a None = Inr ?u"
      using getValue_value_at [of ?sel "?L ! a" None] sel prof
      by (simp add: reg_getValue_def resolve_index_profile)
    ultimately show ?thesis by (simp add: val)
  qed
  from code dec restored show ?thesis by blast
qed

lemma pad_values_0_Nil: "pad_values d 0 [] = [d]"
  by (simp add: pad_values_replicate)

lemma tuned_registry_value:
  "tuned_registry =
     initial_registry\<lparr>settingsList :=
       [step_degrees_setting, step_delay_setting\<lparr>s_values := [map of_char ''900'']\<rparr>,
        machine_name_setting, language_setting]\<rparr>"
  by (simp add: tuned_registry_def reg_setValue_def setValue_def resolve_index_def
      getValueIndex_def isProfile_def isPreference_def isMachineSetting_def on_object_def
      initial_registry_def step_delay_setting_def pad_values_0_Nil ascii_decode_def
      py_setitem_def py_position_def)

lemma transport_inverts_plain: "transport_inverts plain_transport"
  by (simp add: transport_inverts_def plain_transport_def)

lemma dictionary_matches_tuned: "dictionary_matches_list tuned_registry"
  by (auto simp: dictionary_matches_list_def tuned_registry_value initial_registry_def
      step_degrees_setting_def step_delay_setting_def machine_name_setting_def
      language_setting_def nth_Cons' split: if_splits)

lemma same_declarations_tuned: "same_declarations tuned_registry initial_registry"
  by (simp add: same_declarations_def tuned_registry_value initial_registry_def
      step_degrees_setting_def step_delay_setting_def machine_name_setting_def
      language_setting_def)

lemma encodable_tuned: "encodable tuned_registry"
  by (simp add: encodable_def tuned_registry_value initial_registry_def
      step_degrees_setting_def step_delay_setting_def machine_name_setting_def
      language_setting_def isProfile_def isPreference_def isMachineSetting_def
      plain_name_def plain_value_def pair_separator_def block_separator_def
      getValue_def resolve_index_def getValueIndex_def py_getitem_def py_position_def)

lemma profile_string_roundtrip_example:
  "transport_inverts plain_transport \<and> dictionary_matches_list tuned_registry \<and>
   same_declarations tuned_registry initial_registry \<and>
   0 \<le> selectedMachineIndex tuned_registry \<and> 0 \<le> selectedMachineIndex initial_registry \<and>
   encodable tuned_registry \<and>
   reg_getValue tuned_registry 1 None = Inr (map of_char ''900'') \<and>
   reg_getValue initial_registry 1 None = Inr (map of_char ''800'') \<and>
   (\<exists>code r''. getProfileString plain_transport tuned_registry = Inr code \<and>
      setProfileFromString plain_transport initial_registry code = (Inr (), r'') \<and>
      reg_getValue r'' 1 None = Inr (map of_char ''900''))"
proof -
  have s0: "0 \<le> selectedMachineIndex tuned_registry"
    and s1: "0 \<le> selectedMachineIndex initial_registry"
    by (simp_all add: tuned_registry_value initial_registry_def)
  have v: "reg_getValue tuned_registry 1 None = Inr (map of_char ''900'')"
    by (simp add: reg_getValue_def tuned_registry_value initial_registry_def getValue_def
        resolve_index_def getValueIndex_def isProfile_def isPreference_def isMachineSetting_def
        step_delay_setting_def py_getitem_def py_position_def)
  have v0: "reg_getValue initial_registry 1 None = Inr (map of_char ''800'')"
    by (simp add: reg_getValue_def initial_registry_def getValue_def
        resolve_index_def getValueIndex_def step_delay_setting_def)
  have a: "1 < length (settingsList tuned_registry) \<and>
           isProfile (settingsList tuned_registry ! 1) \<and>
           settingsDictionary tuned_registry (s_name (settingsList tuned_registry ! 1)) = Some 1"
    by (simp add: tuned_registry_value initial_registry_def step_delay_setting_def
        isProfile_def isPreference_def isMachineSetting_def)
  from profile_string_roundtrip [OF transport_inverts_plain dictionary_matches_tuned
      same_declarations_tuned s0 s1 encodable_tuned]
  obtain code r'' where "getProfileString plain_transport tuned_registry = Inr code"
    and "setProfileFromString plain_transport initial_registry code = (Inr (), r'')"
    and "\<forall>a. a < length (settingsList tuned_registry) \<and>
             isProfile (settingsList tuned_registry ! a) \<and>
             settingsDictionary tuned_registry (s_name (settingsList tuned_registry ! a)) = Some a \<longrightarrow>
             reg_getValue r'' a None = reg_getValue tuned_registry a None"
    by blast
  with a v have "\<exists>code r''. getProfileString plain_transport tuned_registry = Inr code \<and>
      setProfileFromString plain_transport initial_registry code = (Inr (), r'') \<and>
      reg_getValue r'' 1 None = Inr (map of_char ''900'')"
    by metis
  with transport_inverts_plain dictionary_matches_tuned same_declarations_tuned s0 s1
    encodable_tuned v v0 show ?thesis by blast
qed

lemma awkward_registry_value:
  "awkward_registry =
     \<lparr>settingsList =
        [\<lparr>s_name = awkward_name, s_label = awkward_name, s_tooltip = [],
          s_default = [49], s_values = [], s_type = StringType, s_category = ''basic'',
          s_subcategory = ''basic'', s_validators = [], s_conditions = 0\<rparr>],
      settingsDictionary = [awkward_name \<mapsto> 0], selectedMachineIndex = 0\<rparr>"
  by (simp add: awkward_registry_def setting_init_def new_setting_def ascii_decode_def
      empty_registry_def)

lemma awkward_tuned_value:
  "awkward_tuned =
     awkward_registry\<lparr>settingsList :=
        [\<lparr>s_name = awkward_name, s_label = awkward_name, s_tooltip = [],
          s_default = [49], s_values = [[50]], s_type = StringType, s_category = ''basic'',
          s_subcategory = ''basic'', s_validators = [], s_conditions = 0\<rparr>]\<rparr>"
  by (simp add: awkward_tuned_def awkward_registry_value reg_setValue_def setValue_def
      resolve_index_def getValueIndex_def isProfile_def isPreference_def isMachineSetting_def
      on_object_def pad_values_0_Nil ascii_decode_def py_setitem_def py_position_def)

text \<open>
  The format has no escaping. When a name contains the byte 0x08 the string splits inside
  the name, the tuple assignment of line 328 raises \<open>ValueError\<close>, and a registry in
  which the value is still \<open>1\<close> keeps \<open>1\<close>.
\<close>

lemma profile_string_separator_in_name:
  "isProfile (settingsList awkward_tuned ! 0) \<and>
   settingsDictionary awkward_tuned (s_name (settingsList awkward_tuned ! 0)) = Some 0 \<and>
   CHR ''='' \<notin> set (s_name (settingsList awkward_tuned ! 0)) \<and>
   reg_getValue awkward_tuned 0 None = Inr [50] \<and>
   getProfileString plain_transport awkward_tuned =
     Inr (awkward_name @ ''=2'' @ [block_separator]) \<and>
   setProfileFromString plain_transport awkward_tuned (awkward_name @ ''=2'' @ [block_separator]) =
     (Inl ValueError, awkward_tuned) \<and>
   setProfileFromString plain_transport awkward_registry (awkward_name @ ''=2'' @ [block_separator]) =
     (Inl ValueError, awkward_registry) \<and>
   reg_getValue awkward_registry 0 None = Inr [49]"
proof -
  have two: "char_of (50::nat) = CHR ''2''"
    by code_simp
  have prof: "isProfile (settingsList awkward_tuned ! 0)"
    and key: "settingsDictionary awkward_tuned (s_name (settingsList awkward_tuned ! 0)) = Some 0"
    and name: "CHR ''='' \<notin> set (s_name (settingsList awkward_tuned ! 0))"
    by (simp_all add: awkward_tuned_value awkward_registry_value isProfile_def isPreference_def
        isMachineSetting_def awkward_name_def)
  have v2: "reg_getValue awkward_tuned 0 None = Inr [50]"
    and v1: "reg_getValue awkward_registry 0 None = Inr [49]"
    by (simp_all add: reg_getValue_def awkward_tuned_value awkward_registry_value getValue_def
        resolve_index_def getValueIndex_def isProfile_def isPreference_def isMachineSetting_def
        py_getitem_def py_position_def)
  have code: "getProfileString plain_transport awkward_tuned =
                Inr (awkward_name @ ''=2'' @ [block_separator])"
    using v2 prof
    by (simp add: getProfileString_def plain_transport_def reg_getValue_def
        awkward_tuned_value awkward_registry_value encode_utf8_def utf8_code_point_def two)
  have fails: "setProfileFromString plain_transport r (awkward_name @ ''=2'' @ [block_separator]) =
                 (Inl ValueError, r)" for r
    by (simp add: setProfileFromString_def plain_transport_def awkward_name_def
        block_separator_def pair_separator_def py_split1_def apply_profile_option_def)
  from prof key name v2 v1 code fails show ?thesis by blast
qed

lemma decode_payload_error:
  assumes tr: "transport_inverts t"
    and ps: "list_all (\<lambda>x. pair_separator \<notin> set x) opts"
    and bs: "list_all (\<lambda>x. block_separator \<notin> set x) opts"
    and err: "fst (for_each_option apply_profile_option r' opts) = Inl e"
  shows "setProfileFromString t r'
           (b64encode t (compress t (py_join pair_separator opts @ block_separator #
              py_join pair_separator []))) =
         (Inl e, snd (for_each_option apply_profile_option r' opts))"
proof -
  obtain res r1 where run: "for_each_option apply_profile_option r' opts = (res, r1)"
    by (cases "for_each_option apply_profile_option r' opts")
  with err have "res = Inl e" by simp
  with run decode_payload [OF tr ps bs, of r'] show ?thesis by simp
qed

text \<open>
  C1. The round trip fails on the module's own registry as soon as a profile value leaves
  ASCII. After \<open>step_delay\<close> was set to the unicode string of the single code point 233,
  every name is free of \<open>=\<close>, 0x08 and 0x0C and the value, written as the two UTF-8 bytes
  0xC3 0xA9 (line 348), contains neither separator. \<open>getProfileString\<close> returns a string,
  but \<open>setProfileFromString\<close> hands the raw bytes to \<open>setValue\<close> (line 331), whose
  \<open>unicode(value)\<close> (line 142) decodes with the ASCII codec: the call raises
  \<open>UnicodeDecodeError\<close>, in the registry that produced the string and in the freshly
  declared one, where \<open>step_delay\<close> then still reads \<open>800\<close>. (\<open>loadProfile\<close> decodes the
  bytes it reads as UTF-8 before it calls \<open>setValue\<close>, lines 273 and 281.) This holds for
  every transport whose decoders invert its encoders.
\<close>

theorem profile_string_non_ascii_value:
  assumes "transport_inverts t"
  shows "isProfile (settingsList accented_registry ! 1) \<and>
         settingsDictionary accented_registry ''step_delay'' = Some 1 \<and>
         list_all (\<lambda>s. plain_name (s_name s)) (settingsList accented_registry) \<and>
         reg_getValue accented_registry 0 None = Inr (map of_char ''0.45'') \<and>
         reg_getValue accented_registry 1 None = Inr [233] \<and>
         encode_utf8 [233] = [CHR 0xC3, CHR 0xA9] \<and>
         (\<exists>code. getProfileString t accented_registry = Inr code \<and>
            fst (setProfileFromString t accented_registry code) = Inl UnicodeDecodeError \<and>
            fst (setProfileFromString t initial_registry code) = Inl UnicodeDecodeError \<and>
            reg_getValue (snd (setProfileFromString t initial_registry code)) 1 None =
              Inr (map of_char ''800''))"
proof -
  let ?opts = "[''step_degrees=0.45'', ''step_delay='' @ [CHR 0xC3, CHR 0xA9]]"
  let ?code = "b64encode t (compress t (py_join pair_separator ?opts @ block_separator #
                 py_join pair_separator []))"
  have facts: "isProfile (settingsList accented_registry ! 1) \<and>
         settingsDictionary accented_registry ''step_delay'' = Some 1 \<and>
         list_all (\<lambda>s. plain_name (s_name s)) (settingsList accented_registry) \<and>
         reg_getValue accented_registry 0 None = Inr (map of_char ''0.45'') \<and>
         reg_getValue accented_registry 1 None = Inr [233] \<and>
         encode_utf8 [233] = [CHR 0xC3, CHR 0xA9]"
    by code_simp
  have pairs: "profile_pairs (selectedMachineIndex accented_registry)
                 (settingsList accented_registry) = Inr ?opts"
    by code_simp
  have code: "getProfileString t accented_registry = Inr ?code"
    by (simp add: getProfileString_def pairs)
  have nps: "list_all (\<lambda>x. pair_separator \<notin> set x) ?opts"
    and nbs: "list_all (\<lambda>x. block_separator \<notin> set x) ?opts"
    by (simp_all add: pair_separator_def block_separator_def)
  have err1: "fst (for_each_option apply_profile_option accented_registry ?opts) =
                Inl UnicodeDecodeError"
    by code_simp
  have err0: "fst (for_each_option apply_profile_option initial_registry ?opts) =
                Inl UnicodeDecodeError"
    by code_simp
  have kept: "reg_getValue (snd (for_each_option apply_profile_option initial_registry ?opts)) 1 None =
                Inr (map of_char ''800'')"
    by code_simp
  have "fst (setProfileFromString t accented_registry ?code) = Inl UnicodeDecodeError"
    by (simp only: decode_payload_error [OF assms nps nbs err1] fst_conv)
  moreover have "fst (setProfileFromString t initial_registry ?code) = Inl UnicodeDecodeError"
    by (simp only: decode_payload_error [OF assms nps nbs err0] fst_conv)
  moreover have "reg_getValue (snd (setProfileFromString t initial_registry ?code)) 1 None =
                   Inr (map of_char ''800'')"
    by (simp only: decode_payload_error [OF assms nps nbs err0] snd_conv kept)
  ultimately have "getProfileString t accented_registry = Inr ?code \<and>
            fst (setProfileFromString t accented_registry ?code) = Inl UnicodeDecodeError \<and>
            fst (setProfileFromString t initial_registry ?code) = Inl UnicodeDecodeError \<and>
            reg_getValue (snd (setProfileFromString t initial_registry ?code)) 1 None =
              Inr (map of_char ''800'')"
    using code by simp
  then have "\<exists>code. getProfileString t accented_registry = Inr code \<and>
            fst (setProfileFromString t accented_registry code) = Inl UnicodeDecodeError \<and>
            fst (setProfileFromString t initial_registry code) = Inl UnicodeDecodeError \<and>
            reg_getValue (snd (setProfileFromString t initial_registry code)) 1 None =
              Inr (map of_char ''800'')"
    by (rule exI [of _ ?code])
  with facts show ?thesis by simp
qed

theorem profile_string_non_ascii_value_witness:
  "transport_inverts plain_transport \<and>
   getProfileString plain_transport accented_registry =
     Inr (''step_degrees=0.45'' @ [CHR 0x08] @ ''step_delay='' @ [CHR 0xC3, CHR 0xA9, CHR 0x0C]) \<and>
   fst (setProfileFromString plain_transport accented_registry
          (''step_degrees=0.45'' @ [CHR 0x08] @ ''step_delay='' @ [CHR 0xC3, CHR 0xA9, CHR 0x0C])) =
     Inl UnicodeDecodeError \<and>
   fst (setProfileFromString plain_transport initial_registry
          (''step_degrees=0.45'' @ [CHR 0x08] @ ''step_delay='' @ [CHR 0xC3, CHR 0xA9, CHR 0x0C])) =
     Inl UnicodeDecodeError \<and>
   reg_getValue (snd (setProfileFromString plain_transport initial_registry
          (''step_degrees=0.45'' @ [CHR 0x08] @ ''step_delay='' @ [CHR 0xC3, CHR 0xA9, CHR 0x0C])))
     1 None = Inr (map of_char ''800'')"
proof -
  let ?whole = "''step_degrees=0.45'' @ [CHR 0x08] @ ''step_delay='' @ [CHR 0xC3, CHR 0xA9, CHR 0x0C]"
  have whole: "getProfileString plain_transport accented_registry = Inr ?whole"
    by code_simp
  from profile_string_non_ascii_value [OF transport_inverts_plain]
  obtain code where code: "getProfileString plain_transport accented_registry = Inr code"
    and e1: "fst (setProfileFromString plain_transport accented_registry code) = Inl UnicodeDecodeError"
    and e0: "fst (setProfileFromString plain_transport initial_registry code) = Inl UnicodeDecodeError"
    and v0: "reg_getValue (snd (setProfileFromString plain_transport initial_registry code)) 1 None =
               Inr (map of_char ''800'')"
    by blast
  from code whole have "code = ?whole" by simp
  with e1 e0 v0 whole transport_inverts_plain show ?thesis by simp
qed

section \<open>Saving preferences and profiles\<close>

lemma getValue_nat_index: "getValue sel s (Some (int n)) = Inr (value_at s n)"
  using getValue_value_at [of sel s "Some (int n)"] by (simp add: resolve_index_def)

lemma digit_char_inj:
  assumes "a < 10" and "b < 10" and "digit_char a = digit_char b"
  shows "a = b"
proof -
  have "distinct ''0123456789''" by simp
  moreover have "a < length ''0123456789''" and "b < length ''0123456789''"
    using assms by simp_all
  moreover have "''0123456789'' ! a = ''0123456789'' ! b"
    using assms by (simp add: digit_char_def)
  ultimately show ?thesis
    by (simp only: nth_eq_iff_index_eq)
qed

lemma show_nat_small: "n < 10 \<Longrightarrow> show_nat n = [digit_char n]"
  by (simp add: show_nat.simps)

lemma show_nat_large:
  "\<not> n < 10 \<Longrightarrow> show_nat n = show_nat (n div 10) @ [digit_char (n mod 10)]"
  by (subst show_nat.simps) simp

lemma show_nat_not_Nil: "show_nat n \<noteq> []"
  by (cases "n < 10") (simp_all add: show_nat_small show_nat_large)

lemma show_nat_inj: "show_nat m = show_nat n \<Longrightarrow> m = n"
proof (induction m arbitrary: n rule: show_nat.induct)
  case (1 m)
  show ?case
  proof (cases "m < 10")
    case small_m: True
    show ?thesis
    proof (cases "n < 10")
      case True
      with small_m "1.prems" show ?thesis
        by (simp add: show_nat_small digit_char_inj)
    next
      case False
      with small_m "1.prems" show_nat_not_Nil [of "n div 10"] show ?thesis
        by (simp add: show_nat_small show_nat_large)
    qed
  next
    case large_m: False
    show ?thesis
    proof (cases "n < 10")
      case True
      with large_m "1.prems" show_nat_not_Nil [of "m div 10"] show ?thesis
        by (simp add: show_nat_small show_nat_large)
    next
      case False
      with large_m "1.prems" have pre: "show_nat (m div 10) = show_nat (n div 10)"
        and dig: "digit_char (m mod 10) = digit_char (n mod 10)"
        by (simp_all add: show_nat_large)
      from "1.IH" [OF large_m pre] have "m div 10 = n div 10" .
      moreover from dig have "m mod 10 = n mod 10"
        by (intro digit_char_inj) simp_all
      ultimately show ?thesis
        by (metis div_mult_mod_eq)
    qed
  qed
qed

lemma machine_section_inj: "machine_section m = machine_section n \<Longrightarrow> m = n"
  by (simp add: machine_section_def show_nat_inj)

lemma machine_section_not_preference: "machine_section n \<noteq> ''preference''"
  by (simp add: machine_section_def)

lemma machine_section_not_default: "map ascii_lower (machine_section n) \<noteq> ''default''"
  by (simp add: machine_section_def ascii_lower_def)

lemma config_set_present:
  "has_section p section \<Longrightarrow>
   \<exists>p'. config_set p section k v = Inr p' \<and> map fst p' = map fst p"
proof (induction p)
  case Nil
  then show ?case by (simp add: has_section_def)
next
  case (Cons x p)
  obtain s es where x: "x = (s, es)" by (cases x)
  show ?case
  proof (cases "s = section")
    case True
    then show ?thesis by (simp add: x)
  next
    case False
    with Cons.prems have "has_section p section"
      by (simp add: has_section_def x)
    from Cons.IH [OF this] obtain p' where "config_set p section k v = Inr p'"
      and "map fst p' = map fst p" by blast
    with False show ?thesis by (simp add: x)
  qed
qed

lemma has_section_names: "map fst p' = map fst p \<Longrightarrow> has_section p' section = has_section p section"
  by (simp add: has_section_def)

lemma getValue_preference:
  assumes "isPreference s"
  shows "getValue sel s None = Inr (value_at s 0)"
proof -
  have "resolve_index sel s None = 0"
    using assms by (simp add: resolve_index_def getValueIndex_def isProfile_def isMachineSetting_def
        isPreference_def)
  with getValue_value_at [of sel s None] show ?thesis by simp
qed

lemma save_preference_settings_ok:
  "has_section p ''preference'' \<Longrightarrow>
   \<exists>p'. save_preference_settings sel ss p = Inr p' \<and> map fst p' = map fst p"
proof (induction ss arbitrary: p)
  case Nil
  then show ?case by simp
next
  case (Cons s ss)
  show ?case
  proof (cases "isPreference s")
    case False
    with Cons.IH [OF Cons.prems] show ?thesis by simp
  next
    case True
    from config_set_present [OF Cons.prems, of "s_name s" "encode_utf8 (value_at s 0)"]
    obtain p1 where set1: "config_set p ''preference'' (s_name s) (encode_utf8 (value_at s 0)) = Inr p1"
      and names1: "map fst p1 = map fst p" by blast
    have "has_section p1 ''preference''"
      using Cons.prems has_section_names [OF names1] by simp
    from Cons.IH [OF this] obtain p' where "save_preference_settings sel ss p1 = Inr p'"
      and "map fst p' = map fst p1" by blast
    with True set1 names1 show ?thesis
      by (simp add: getValue_preference)
  qed
qed

lemma save_machine_settings_ok:
  "has_section p (machine_section n) \<Longrightarrow>
   \<exists>p'. save_machine_settings sel n ss p = Inr p' \<and> map fst p' = map fst p"
proof (induction ss arbitrary: p)
  case Nil
  then show ?case by simp
next
  case (Cons s ss)
  show ?case
  proof (cases "isMachineSetting s")
    case False
    with Cons.IH [OF Cons.prems] show ?thesis by simp
  next
    case True
    from config_set_present [OF Cons.prems, of "s_name s" "encode_utf8 (value_at s n)"]
    obtain p1 where set1: "config_set p (machine_section n) (s_name s) (encode_utf8 (value_at s n)) = Inr p1"
      and names1: "map fst p1 = map fst p" by blast
    have "has_section p1 (machine_section n)"
      using Cons.prems has_section_names [OF names1] by simp
    from Cons.IH [OF this] obtain p' where "save_machine_settings sel n ss p1 = Inr p'"
      and "map fst p' = map fst p1" by blast
    with True set1 names1 show ?thesis
      by (simp add: getValue_nat_index)
  qed
qed

lemma getMachineSetting_machine_name:
  assumes "settingsDictionary r ''machine_name'' = Some a"
    and "isMachineSetting (settingsList r ! a)"
  shows "getMachineSetting r ''machine_name'' (Some (int n)) =
           Inr (PyUnicode (value_at (settingsList r ! a) n))"
  using assms by (simp add: getMachineSetting_def reg_getValue_def getValue_nat_index)

lemma add_machine_section:
  assumes "\<not> has_section p (machine_section n)"
  shows "add_section p (machine_section n) = Inr (p @ [(machine_section n, [])])"
  using assms by (simp add: add_section_def machine_section_not_default)

lemma machine_sections_run:
  assumes key: "settingsDictionary r ''machine_name'' = Some a"
    and mach: "isMachineSetting (settingsList r ! a)"
    and named: "\<forall>i. n \<le> i \<and> i < k \<longrightarrow> value_at (settingsList r ! a) i \<noteq> []"
    and stop: "value_at (settingsList r ! a) k = []"
    and le: "n \<le> k"
    and fresh: "\<forall>j. n \<le> j \<longrightarrow> \<not> has_section p (machine_section j)"
  shows "\<exists>p'. machine_sections r n p = Some (Inr p') \<and>
           map fst p' = map fst p @ map machine_section [n..<k]"
  using named le fresh
proof (induction "k - n" arbitrary: n p)
  case 0
  then have "n = k" by simp
  with stop show ?case
    by (subst machine_sections.simps)
       (simp add: getMachineSetting_machine_name [OF key mach])
next
  case (Suc d)
  then have lt: "n < k" by simp
  with Suc.prems(1) have name: "value_at (settingsList r ! a) n \<noteq> []" by simp
  let ?p1 = "p @ [(machine_section n, [])]"
  have add: "add_section p (machine_section n) = Inr ?p1"
    using Suc.prems(3) by (simp add: add_machine_section)
  have "has_section ?p1 (machine_section n)"
    by (simp add: has_section_def)
  from save_machine_settings_ok [OF this, of "selectedMachineIndex r" "settingsList r"]
  obtain p2 where save: "save_machine_settings (selectedMachineIndex r) n (settingsList r) ?p1 = Inr p2"
    and names2: "map fst p2 = map fst ?p1" by blast
  have fresh2: "\<forall>j. Suc n \<le> j \<longrightarrow> \<not> has_section p2 (machine_section j)"
  proof (intro allI impI)
    fix j assume j: "Suc n \<le> j"
    then have "\<not> has_section p (machine_section j)" and "machine_section j \<noteq> machine_section n"
      using Suc.prems(3) machine_section_inj [of j n] by auto
    then show "\<not> has_section p2 (machine_section j)"
      by (simp add: has_section_def names2)
  qed
  have d: "d = k - Suc n" using Suc.hyps(2) by simp
  have named2: "\<forall>i. Suc n \<le> i \<and> i < k \<longrightarrow> value_at (settingsList r ! a) i \<noteq> []"
    using Suc.prems(1) by simp
  have le2: "Suc n \<le> k" using lt by simp
  from Suc.hyps(1) [OF d named2 le2 fresh2]
  obtain p' where run: "machine_sections r (Suc n) p2 = Some (Inr p')"
    and names: "map fst p' = map fst p2 @ map machine_section [Suc n..<k]" by blast
  have "machine_sections r n p = Some (Inr p')"
    using name add save run
    by (subst machine_sections.simps)
       (simp add: getMachineSetting_machine_name [OF key mach])
  moreover have "map fst p' = map fst p @ map machine_section [n..<k]"
    using names names2 lt by (simp add: upt_conv_Cons)
  ultimately show ?case by blast
qed

text \<open>
  C8. Let \<open>machine_name\<close> be registered as a machine setting whose default is the empty
  string, as the module declares it. Then \<open>savePreferences\<close> terminates. There is a first
  index \<open>k\<close> at which the value of \<open>machine_name\<close> is empty, it is at most the stored
  length, and the sections handed to the file are \<open>preference\<close> followed by exactly
  \<open>machine_0\<close>, ..., \<open>machine_(k-1)\<close>; the call returns them when the file can be written
  and raises \<open>IOError\<close> otherwise.
\<close>

theorem savePreferences_machine_sections:
  assumes key: "settingsDictionary r ''machine_name'' = Some a"
    and mach: "isMachineSetting (settingsList r ! a)"
    and dflt: "s_default (settingsList r ! a) = []"
  shows "\<exists>k p. k \<le> length (s_values (settingsList r ! a)) \<and>
           reg_getValue r a (Some (int k)) = Inr [] \<and>
           (\<forall>i<k. reg_getValue r a (Some (int i)) \<noteq> Inr []) \<and>
           map fst p = ''preference'' # map machine_section [0..<k] \<and>
           savePreferences writable r filename =
             Some (if writable filename then Inr p else Inl IOError)"
proof -
  let ?s = "settingsList r ! a"
  have last: "value_at ?s (length (s_values ?s)) = []"
    using dflt by (simp add: value_at_def)
  then have "\<exists>k. value_at ?s k = [] \<and> (\<forall>i<k. value_at ?s i \<noteq> [])"
    using exists_least_iff [of "\<lambda>k. value_at ?s k = []"] by blast
  then obtain k where stop: "value_at ?s k = []" and named: "\<forall>i<k. value_at ?s i \<noteq> []"
    by blast
  have add: "add_section [] ''preference'' = Inr [(''preference'', [])]"
    by (simp add: add_section_def has_section_def ascii_lower_def)
  have "has_section [(''preference'', [])] ''preference''"
    by (simp add: has_section_def)
  from save_preference_settings_ok [OF this, of "selectedMachineIndex r" "settingsList r"]
  obtain p1 where prefs: "save_preference_settings (selectedMachineIndex r) (settingsList r)
        [(''preference'', [])] = Inr p1"
    and names1: "map fst p1 = [''preference'']" by auto
  have fresh: "\<forall>j. 0 \<le> j \<longrightarrow> \<not> has_section p1 (machine_section j)"
    using machine_section_not_preference by (simp add: has_section_def names1)
  have named0: "\<forall>i. 0 \<le> i \<and> i < k \<longrightarrow> value_at ?s i \<noteq> []"
    using named by simp
  from machine_sections_run [OF key mach named0 stop _ fresh]
  obtain p where run: "machine_sections r 0 p1 = Some (Inr p)"
    and names: "map fst p = map fst p1 @ map machine_section [0..<k]" by auto
  have saved: "savePreferences writable r filename =
                 Some (if writable filename then Inr p else Inl IOError)"
    by (simp add: savePreferences_def add prefs run write_config_def)
  have sections: "map fst p = ''preference'' # map machine_section [0..<k]"
    using names names1 by simp
  have read: "reg_getValue r a (Some (int i)) = Inr (value_at ?s i)" for i
    by (simp add: reg_getValue_def getValue_nat_index)
  have bound: "k \<le> length (s_values ?s)"
  proof (rule ccontr)
    assume "\<not> k \<le> length (s_values ?s)"
    then have "length (s_values ?s) < k" by simp
    with named last show False by blast
  qed
  have "k \<le> length (s_values ?s) \<and>
        reg_getValue r a (Some (int k)) = Inr [] \<and>
        (\<forall>i<k. reg_getValue r a (Some (int i)) \<noteq> Inr []) \<and>
        map fst p = ''preference'' # map machine_section [0..<k] \<and>
        savePreferences writable r filename =
          Some (if writable filename then Inr p else Inl IOError)"
    using bound stop named sections saved by (simp add: read)
  then show ?thesis
    by - (rule exI [of _ k], rule exI [of _ p], assumption)
qed

lemma save_all_profiles_NameError:
  "list_ex isProfile ss \<Longrightarrow> save_all_profiles r ss p = Inl NameError"
  by (induction ss arbitrary: p) (auto simp: isProfile_def getMachineCount_def)

lemma saveProfile_all_NameError:
  "list_ex isProfile (settingsList r) \<Longrightarrow> saveProfile writable r filename True = Inl NameError"
  by (simp add: saveProfile_def save_all_profiles_NameError)

text \<open>
  C6. With \<open>allMachines\<close> true, \<open>saveProfile\<close> on the module's registry reaches the call
  of \<open>getMachineCount\<close> at the first profile setting and raises \<open>NameError\<close>: no section
  is created, nothing is written, and the error is not an I/O error.
\<close>

theorem saveProfile_all_machines_initial:
  "isProfile (settingsList initial_registry ! 0) \<and>
   saveProfile writable initial_registry filename True = Inl NameError"
  by (simp add: saveProfile_def initial_registry_def getMachineCount_def isProfile_def
      isPreference_def isMachineSetting_def step_degrees_setting_def)

lemma named_registry_value:
  "named_registry =
     initial_registry\<lparr>settingsList :=
       [step_degrees_setting, step_delay_setting,
        machine_name_setting\<lparr>s_values := [map of_char ''ciclop'']\<rparr>, language_setting]\<rparr>"
  by (simp add: named_registry_def reg_setValue_def setValue_def resolve_index_def
      on_object_def initial_registry_def machine_name_setting_def pad_values_0_Nil
      ascii_decode_def py_setitem_def py_position_def)

theorem savePreferences_machine_sections_witness:
  "settingsDictionary named_registry ''machine_name'' = Some 2 \<and>
   isMachineSetting (settingsList named_registry ! 2) \<and>
   s_default (settingsList named_registry ! 2) = [] \<and>
   (\<exists>k p. k \<le> length (s_values (settingsList named_registry ! 2)) \<and>
      reg_getValue named_registry 2 (Some (int k)) = Inr [] \<and>
      (\<forall>i<k. reg_getValue named_registry 2 (Some (int i)) \<noteq> Inr []) \<and>
      map fst p = ''preference'' # map machine_section [0..<k] \<and>
      savePreferences (\<lambda>f. True) named_registry ''preferences.ini'' = Some (Inr p))"
proof -
  have h1: "settingsDictionary named_registry ''machine_name'' = Some 2"
    and h2: "isMachineSetting (settingsList named_registry ! 2)"
    and h3: "s_default (settingsList named_registry ! 2) = []"
    by (simp_all add: named_registry_value initial_registry_def machine_name_setting_def
        isMachineSetting_def)
  from savePreferences_machine_sections [OF h1 h2 h3, of "\<lambda>f. True" "''preferences.ini''"]
    h1 h2 h3
  show ?thesis by simp
qed

text \<open>
  On that registry the loop runs once: the file holds the section \<open>preference\<close> with the
  language and the section \<open>machine_0\<close> with the machine's name.
\<close>

lemma savePreferences_named_registry:
  "savePreferences (\<lambda>f. True) named_registry ''preferences.ini'' =
     Some (Inr [(''preference'', [(''language'', ''English'')]),
                (''machine_0'', [(''machine_name'', ''ciclop'')])])"
  by code_simp

end
